theory Spec2Isabelle
  imports Complex_Main "HOL-Library.Word" "HOL-Library.Sublist" "HOL-Library.AList"
begin

unbundle bit_operations_syntax

section \<open>The binding \<open>pyqrack/qrack_simulator.py\<close>\<close>

text \<open>
  The class \<open>QrackSimulator\<close> wraps one handle of the native library
  \<open>Qrack.qrack_lib\<close>. Every method marshals its arguments and issues native calls.
  The model keeps the order of evaluation of the source: the arguments of a native
  call are evaluated from left to right before the call is issued, and a Python
  exception leaves the effects that came before it in place.
\<close>

subsection \<open>Python exceptions raised by the binding\<close>

datatype error =
    RuntimeError string
  | NameError string
  | IndexError
  | AttributeError string
  | ArgumentError

subsection \<open>ctypes values\<close>

text \<open>
  \<open>c_uint\<close> is 32 bits wide and \<open>c_ubyte\<close> 8 bits wide; ctypes does not check the
  range of an integer stored into either, the value wraps. A C \<open>double\<close> is read as
  the real number it denotes.
\<close>

type_synonym c_uint = "32 word"
type_synonym c_ubyte = "8 word"

text \<open>\<open>self.sid\<close>: \<open>None\<close> or the handle that the native library returned.\<close>

type_synonym handle = "int option"

text \<open>
  The module \<open>pauli\<close> is imported by the source; only the two members that
  \<open>run_pyzx_gates\<close> names are needed, and they are kept symbolic.
\<close>

datatype pauli = PauliX | PauliZ

text \<open>
  A floating-point argument: a value passed through as it is, or the product
  \<open>math.pi * x\<close> of the source, kept symbolic.
\<close>

datatype fl = Fl real | Pi_times real

subsection \<open>Native calls\<close>

text \<open>
  One constructor for each entry point of \<open>Qrack.qrack_lib\<close> that the modelled
  methods name (\<open>Lib_X\<close> for \<open>Qrack.qrack_lib.X\<close>), with the arguments in the
  order of the source.
\<close>

datatype native_call =
    Lib_init_clone int
  | Lib_init_count_type int bool bool bool bool bool bool bool
  | Lib_destroy handle
  | Lib_Prob handle int
  | Lib_PhaseParity handle fl nat "c_uint list"
  | Lib_X handle int
  | Lib_Z handle int
  | Lib_H handle int
  | Lib_S handle int
  | Lib_T handle int
  | Lib_MCX handle nat "c_uint list" int
  | Lib_MCZ handle nat "c_uint list" int
  | Lib_MCH handle nat "c_uint list" int
  | Lib_R handle pauli fl int
  | Lib_MCR handle pauli fl nat "c_uint list" int
  | Lib_MeasureShots handle nat "c_uint list" int "c_uint list"
  | Lib_SWAP handle int int
  | Lib_FSim handle fl fl int int
  | Lib_Decompose handle nat "c_uint list"
  | Lib_LDA handle nat "c_uint list" nat "c_uint list" "c_ubyte list"
  | Lib_ADC handle int nat "c_uint list" nat "c_uint list" "c_ubyte list"
  | Lib_SBC handle int nat "c_uint list" nat "c_uint list" "c_ubyte list"
  | Lib_Hash handle nat "c_uint list" "c_ubyte list"
  | Lib_TrySeparateTol handle nat "c_uint list" fl

text \<open>What a native call hands back: its return value, or what it wrote to a buffer.\<close>

datatype ret = RNone | RInt int | RBool bool | RDouble real | RBuf "c_uint list"

text \<open>
  The native library is a parameter \<open>lib\<close> of every method: a transformer of its own
  state \<open>'n\<close>. The world also logs the calls issued, in order, with the Python
  values of their arguments. The native function itself does not raise a Python
  exception.
\<close>

record 'n world =
  trace :: "native_call list"
  nst :: 'n

type_synonym 'n native_lib = "native_call \<Rightarrow> 'n \<Rightarrow> ret \<times> 'n"

definition call :: "'n native_lib \<Rightarrow> native_call \<Rightarrow> 'n world \<Rightarrow> 'n world \<times> ret" where
  "call lib c w =
     (case lib c (nst w) of (r, n') \<Rightarrow> (\<lparr>trace = trace w @ [c], nst = n'\<rparr>, r))"

text \<open>
  Before it issues a call, ctypes converts each argument, and raises
  \<open>ctypes.ArgumentError\<close> for one that it cannot convert; the native function is then
  not called. The source wraps the arrays and most floating-point arguments in ctypes
  objects itself. What it passes as plain Python values is converted by the default
  rule:
  \<^item> a Python \<open>int\<close> is read as a C \<open>unsigned long\<close> and, failing that, as a C
    \<open>long\<close> (64 bits wide here); an \<open>int\<close> outside both ranges is refused
    ("int too long to convert");
  \<^item> a Python \<open>float\<close> is refused ("Don't know how to convert parameter").
  The model has the second case in \<open>mcr\<close>, the one place where the source passes a
  bare \<open>float\<close>, and the first in the constructor, whose integers come from the
  caller. The handles and qubit indices of the other methods are taken to be within
  the range.
\<close>

definition convertible :: "int \<Rightarrow> bool" where
  "convertible i \<longleftrightarrow> - (2 ^ 63) \<le> i \<and> i < 2 ^ 64"

text \<open>The Python value of a native result that is stored in \<open>self.sid\<close>.\<close>

fun as_sid :: "ret \<Rightarrow> handle" where
  "as_sid (RInt i) = Some i"
| "as_sid _ = None"

subsection \<open>The object\<close>

record QrackSimulator =
  sid :: handle

text \<open>\<open>_uint_byref\<close>: \<open>(c_uint * len(a))(*a)\<close>.\<close>

definition uint_byref :: "int list \<Rightarrow> c_uint list" where
  "uint_byref a = map word_of_int a"

subsection \<open>Foreign gate records\<close>

text \<open>
  A gate record of the foreign circuit format: its name and the attributes that the
  reachable branches of \<open>run_pyzx_gates\<close> read. An attribute that the record does not
  have is \<open>None\<close>; reading it raises \<open>AttributeError\<close>.
\<close>

record gate =
  name :: string
  target :: "int option"
  control :: "int option"
  phase :: "real option"
  targets :: "int list option"

record pyzx_circuit =
  qubits :: int
  gates :: "gate list"

definition getattr :: "string \<Rightarrow> 'a option \<Rightarrow> error + 'a" where
  "getattr a v = (case v of None \<Rightarrow> Inl (AttributeError a) | Some x \<Rightarrow> Inr x)"

text \<open>
  Sequencing: \<open>attr v w k\<close> continues with \<open>k\<close> on the value read, or stops with the
  exception and the world as it is.
\<close>

definition attr ::
  "error + 'a \<Rightarrow> 'n world \<Rightarrow> ('a \<Rightarrow> 'n world \<times> (error + 'b)) \<Rightarrow> 'n world \<times> (error + 'b)" where
  "attr v w k = (case v of Inl e \<Rightarrow> (w, Inl e) | Inr a \<Rightarrow> k a)"

subsection \<open>Gate methods that \<open>run_pyzx_gates\<close> calls\<close>

text \<open>
  Each of these methods but \<open>mcr\<close> is one native call on \<open>self.sid\<close> and returns
  nothing. The methods \<open>x\<close>, \<open>z\<close>, \<open>h\<close>, \<open>s\<close>, \<open>t\<close>, \<open>r\<close> and \<open>swap\<close> of the source
  carry the suffix \<open>_gate\<close> here.
\<close>

definition phase_parity :: "'n native_lib \<Rightarrow> QrackSimulator \<Rightarrow> fl \<Rightarrow> int list \<Rightarrow> 'n world \<Rightarrow> 'n world" where
  "phase_parity lib self la q w = fst (call lib (Lib_PhaseParity (sid self) la (length q) (uint_byref q)) w)"

definition x_gate :: "'n native_lib \<Rightarrow> QrackSimulator \<Rightarrow> int \<Rightarrow> 'n world \<Rightarrow> 'n world" where
  "x_gate lib self q w = fst (call lib (Lib_X (sid self) q) w)"

definition z_gate :: "'n native_lib \<Rightarrow> QrackSimulator \<Rightarrow> int \<Rightarrow> 'n world \<Rightarrow> 'n world" where
  "z_gate lib self q w = fst (call lib (Lib_Z (sid self) q) w)"

definition h_gate :: "'n native_lib \<Rightarrow> QrackSimulator \<Rightarrow> int \<Rightarrow> 'n world \<Rightarrow> 'n world" where
  "h_gate lib self q w = fst (call lib (Lib_H (sid self) q) w)"

definition s_gate :: "'n native_lib \<Rightarrow> QrackSimulator \<Rightarrow> int \<Rightarrow> 'n world \<Rightarrow> 'n world" where
  "s_gate lib self q w = fst (call lib (Lib_S (sid self) q) w)"

definition t_gate :: "'n native_lib \<Rightarrow> QrackSimulator \<Rightarrow> int \<Rightarrow> 'n world \<Rightarrow> 'n world" where
  "t_gate lib self q w = fst (call lib (Lib_T (sid self) q) w)"

definition mcx :: "'n native_lib \<Rightarrow> QrackSimulator \<Rightarrow> int list \<Rightarrow> int \<Rightarrow> 'n world \<Rightarrow> 'n world" where
  "mcx lib self c q w = fst (call lib (Lib_MCX (sid self) (length c) (uint_byref c) q) w)"

definition mcz :: "'n native_lib \<Rightarrow> QrackSimulator \<Rightarrow> int list \<Rightarrow> int \<Rightarrow> 'n world \<Rightarrow> 'n world" where
  "mcz lib self c q w = fst (call lib (Lib_MCZ (sid self) (length c) (uint_byref c) q) w)"

definition mch :: "'n native_lib \<Rightarrow> QrackSimulator \<Rightarrow> int list \<Rightarrow> int \<Rightarrow> 'n world \<Rightarrow> 'n world" where
  "mch lib self c q w = fst (call lib (Lib_MCH (sid self) (length c) (uint_byref c) q) w)"

definition r_gate :: "'n native_lib \<Rightarrow> QrackSimulator \<Rightarrow> pauli \<Rightarrow> fl \<Rightarrow> int \<Rightarrow> 'n world \<Rightarrow> 'n world" where
  "r_gate lib self b ph q w = fst (call lib (Lib_R (sid self) b ph q) w)"

text \<open>
  \<open>mcr\<close> (line 200) passes \<open>ph\<close> as it is, where \<open>r\<close> (line 197) passes
  \<open>c_double(ph)\<close>. The arguments \<open>self.sid\<close>, \<open>c_uint(b)\<close>, \<open>ph\<close>, \<open>len(c)\<close>,
  \<open>self._uint_byref(c)\<close> and \<open>q\<close> are evaluated without effect; then ctypes refuses
  the floating-point value \<open>ph\<close>, and \<open>MCR\<close> is not called.
\<close>

definition mcr ::
  "'n native_lib \<Rightarrow> QrackSimulator \<Rightarrow> pauli \<Rightarrow> fl \<Rightarrow> int list \<Rightarrow> int \<Rightarrow> 'n world
     \<Rightarrow> 'n world \<times> (error + unit)" where
  "mcr lib self b ph c q w = (w, Inl ArgumentError)"

definition swap_gate :: "'n native_lib \<Rightarrow> QrackSimulator \<Rightarrow> int \<Rightarrow> int \<Rightarrow> 'n world \<Rightarrow> 'n world" where
  "swap_gate lib self qi1 qi2 w = fst (call lib (Lib_SWAP (sid self) qi1 qi2) w)"

subsection \<open>\<open>run_pyzx_gates\<close>\<close>

text \<open>
  The body of the loop, for one gate record. The chain of comparisons is the source's,
  in its order, down to \<open>'ParityPhase'\<close>. The next condition of the chain (line 410)
  reads \<open>game.name\<close>. The name \<open>game\<close> is bound nowhere: the function binds
  \<open>self\<close>, \<open>gates\<close> and \<open>gate\<close>; the module binds \<open>math\<close>, \<open>cmath\<close>, \<open>Qrack\<close>,
  \<open>Pauli\<close>, \<open>QrackSimulator\<close> and the public names of \<open>ctypes\<close>; it is no builtin.
  Evaluating the condition raises \<open>NameError\<close>, so the branches below it
  (\<open>'FSim'\<close>, \<open>'CCZ'\<close>, \<open>'Tof'\<close>) are never entered.
\<close>

definition run_gate ::
  "'n native_lib \<Rightarrow> QrackSimulator \<Rightarrow> gate \<Rightarrow> 'n world \<Rightarrow> 'n world \<times> (error + unit)" where
  "run_gate lib self g w =
    (if name g = ''XPhase'' then
       attr (getattr ''phase'' (phase g)) w (\<lambda>ph.
       attr (getattr ''target'' (target g)) w (\<lambda>tg.
         (r_gate lib self PauliX (Pi_times ph) tg w, Inr ())))
     else if name g = ''ZPhase'' then
       attr (getattr ''phase'' (phase g)) w (\<lambda>ph.
       attr (getattr ''target'' (target g)) w (\<lambda>tg.
         (r_gate lib self PauliZ (Pi_times ph) tg w, Inr ())))
     else if name g = ''Z'' then
       attr (getattr ''target'' (target g)) w (\<lambda>tg. (z_gate lib self tg w, Inr ()))
     else if name g = ''S'' then
       attr (getattr ''target'' (target g)) w (\<lambda>tg. (s_gate lib self tg w, Inr ()))
     else if name g = ''T'' then
       attr (getattr ''target'' (target g)) w (\<lambda>tg. (t_gate lib self tg w, Inr ()))
     else if name g = ''NOT'' then
       attr (getattr ''target'' (target g)) w (\<lambda>tg. (x_gate lib self tg w, Inr ()))
     else if name g = ''HAD'' then
       attr (getattr ''target'' (target g)) w (\<lambda>tg. (h_gate lib self tg w, Inr ()))
     else if name g = ''CNOT'' then
       attr (getattr ''control'' (control g)) w (\<lambda>c.
       attr (getattr ''target'' (target g)) w (\<lambda>tg. (mcx lib self [c] tg w, Inr ())))
     else if name g = ''CZ'' then
       attr (getattr ''control'' (control g)) w (\<lambda>c.
       attr (getattr ''target'' (target g)) w (\<lambda>tg. (mcz lib self [c] tg w, Inr ())))
     else if name g = ''CX'' then
       attr (getattr ''control'' (control g)) w (\<lambda>c.
         let w1 = h_gate lib self c w in
         attr (getattr ''target'' (target g)) w1 (\<lambda>tg.
           let w2 = mcx lib self [c] tg w1 in
           (h_gate lib self c w2, Inr ())))
     else if name g = ''SWAP'' then
       attr (getattr ''control'' (control g)) w (\<lambda>c.
       attr (getattr ''target'' (target g)) w (\<lambda>tg. (swap_gate lib self c tg w, Inr ())))
     else if name g = ''CRZ'' then
       attr (getattr ''phase'' (phase g)) w (\<lambda>ph.
       attr (getattr ''control'' (control g)) w (\<lambda>c.
       attr (getattr ''target'' (target g)) w (\<lambda>tg.
         mcr lib self PauliZ (Pi_times ph) [c] tg w)))
     else if name g = ''CHAD'' then
       attr (getattr ''control'' (control g)) w (\<lambda>c.
       attr (getattr ''target'' (target g)) w (\<lambda>tg. (mch lib self [c] tg w, Inr ())))
     else if name g = ''ParityPhase'' then
       attr (getattr ''phase'' (phase g)) w (\<lambda>ph.
       attr (getattr ''targets'' (targets g)) w (\<lambda>tgs.
         (phase_parity lib self (Pi_times ph) tgs w, Inr ())))
     else (w, Inl (NameError ''game'')))"

text \<open>The loop \<open>for gate in gates\<close>: an exception ends it.\<close>

fun run_pyzx_gates ::
  "'n native_lib \<Rightarrow> QrackSimulator \<Rightarrow> gate list \<Rightarrow> 'n world \<Rightarrow> 'n world \<times> (error + unit)" where
  "run_pyzx_gates lib self [] w = (w, Inr ())"
| "run_pyzx_gates lib self (g # gs) w =
     (case run_gate lib self g w of
        (w', Inl e) \<Rightarrow> (w', Inl e)
      | (w', Inr _) \<Rightarrow> run_pyzx_gates lib self gs w')"

subsection \<open>Constructor and destructor\<close>

text \<open>The keyword arguments of the constructor that configure a fresh register.\<close>

record options =
  isMultiDevice :: bool
  isSchmidtDecompose :: bool
  isStabilizerHybrid :: bool
  isBinaryDecisionTree :: bool
  isPaged :: bool
  is1QbFusion :: bool
  isCpuGpuHybrid :: bool

text \<open>The defaults of the signature.\<close>

definition default_options :: options where
  "default_options =
     \<lparr>isMultiDevice = True, isSchmidtDecompose = True, isStabilizerHybrid = True,
      isBinaryDecisionTree = False, isPaged = True, is1QbFusion = True,
      isCpuGpuHybrid = True\<rparr>"

definition clone_and_count_msg :: string where
  "clone_and_count_msg =
     ''Cannot clone a QrackSimulator and specify its qubit length at the same time, in QrackSimulator constructor!''"

text \<open>
  A native call one of whose arguments is the plain Python integer \<open>i\<close>: ctypes
  refuses \<open>i\<close> before the call, or the call is issued.
\<close>

definition call_int ::
  "'n native_lib \<Rightarrow> int \<Rightarrow> native_call \<Rightarrow> 'n world \<Rightarrow> 'n world \<times> (error + ret)" where
  "call_int lib i c w =
     (if convertible i then (case call lib c w of (w', r) \<Rightarrow> (w', Inr r))
      else (w, Inl ArgumentError))"

text \<open>
  \<open>__init__\<close>. The result is the world, the object as the constructor left it (an
  exception leaves the fields assigned so far) and the outcome. The clone source id
  and the qubit count are plain Python integers that come from the caller: when
  ctypes refuses one, the assignment to \<open>self.sid\<close> does not happen and the exception
  leaves the constructor.
\<close>

definition qs_init ::
  "'n native_lib \<Rightarrow> int \<Rightarrow> int \<Rightarrow> options \<Rightarrow> pyzx_circuit option \<Rightarrow> 'n world
     \<Rightarrow> 'n world \<times> QrackSimulator \<times> (error + unit)" where
  "qs_init lib qubitCount cloneSid opts pyzxCircuit w =
    (let self = \<lparr>sid = None\<rparr>;
         qubitCount = (case pyzxCircuit of None \<Rightarrow> qubitCount | Some c \<Rightarrow> qubits c)
     in
       if qubitCount > -1 \<and> cloneSid > -1 then
         (w, self, Inl (RuntimeError clone_and_count_msg))
       else
         (case
            (if cloneSid > -1 then call_int lib cloneSid (Lib_init_clone cloneSid) w
             else
               let qubitCount = (if qubitCount < 0 then 0 else qubitCount)
               in call_int lib qubitCount
                    (Lib_init_count_type qubitCount (isMultiDevice opts)
                       (isSchmidtDecompose opts) (isStabilizerHybrid opts)
                       (isBinaryDecisionTree opts) (isPaged opts) (is1QbFusion opts)
                       (isCpuGpuHybrid opts)) w)
          of
            (w1, Inl e) \<Rightarrow> (w1, self, Inl e)
          | (w1, Inr r) \<Rightarrow>
              let self = self\<lparr>sid := as_sid r\<rparr>
              in
                (case pyzxCircuit of
                   None \<Rightarrow> (w1, self, Inr ())
                 | Some c \<Rightarrow>
                     (case run_pyzx_gates lib self (gates c) w1 of
                        (w2, res) \<Rightarrow> (w2, self, res)))))"

text \<open>\<open>__del__\<close>.\<close>

definition qs_del :: "'n native_lib \<Rightarrow> QrackSimulator \<Rightarrow> 'n world \<Rightarrow> 'n world \<times> QrackSimulator" where
  "qs_del lib self w =
    (if sid self \<noteq> None then
       (fst (call lib (Lib_destroy (sid self)) w), self\<lparr>sid := None\<rparr>)
     else (w, self))"

subsection \<open>\<open>try_separate_tolerance\<close>\<close>

text \<open>
  The arguments of the native call are evaluated from left to right: \<open>self.sid\<close>,
  \<open>len(qs)\<close> and \<open>self._uint_byref(qs)\<close> have no effect, and the fourth is the name
  \<open>tol\<close>. The parameter of the method is \<open>t\<close>; \<open>tol\<close> is bound neither in the
  function nor in the module nor as a builtin, so its evaluation raises \<open>NameError\<close>
  before \<open>TrySeparateTol\<close> is called.
\<close>

definition try_separate_tolerance ::
  "'n native_lib \<Rightarrow> QrackSimulator \<Rightarrow> int list \<Rightarrow> fl \<Rightarrow> 'n world \<Rightarrow> 'n world \<times> (error + ret)" where
  "try_separate_tolerance lib self qs t w = (w, Inl (NameError ''tol''))"

subsection \<open>\<open>_to_ubyte\<close> and the lookup-table methods\<close>

text \<open>
  \<open>c = math.floor((nv - 1) / 8) + 1\<close>. Every caller passes a length for \<open>nv\<close>. The
  quotient is rounded down, also when \<open>nv\<close> is 0 (then \<open>c\<close> is 0).
\<close>

definition to_ubyte_width :: "nat \<Rightarrow> nat" where
  "to_ubyte_width nv = nat ((int nv - 1) div 8 + 1)"

text \<open>
  The inner loop \<open>for i in range(c)\<close>, on the buffer \<open>b\<close> and the index \<open>n\<close>: a
  store beyond the end of a ctypes array raises \<open>IndexError\<close>.
\<close>

fun write_entry :: "nat \<Rightarrow> int \<Rightarrow> c_ubyte list \<times> nat \<Rightarrow> error + c_ubyte list \<times> nat" where
  "write_entry 0 u (b, n) = Inr (b, n)"
| "write_entry (Suc k) u (b, n) =
     (if n < length b
      then write_entry k (drop_bit 8 u) (b[n := word_of_int (u AND 255)], Suc n)
      else Inl IndexError)"

text \<open>The outer loop \<open>for u in v\<close>.\<close>

fun write_table :: "nat \<Rightarrow> int list \<Rightarrow> c_ubyte list \<times> nat \<Rightarrow> error + c_ubyte list \<times> nat" where
  "write_table c [] bn = Inr bn"
| "write_table c (u # v) bn =
     (case write_entry c u bn of Inl e \<Rightarrow> Inl e | Inr bn' \<Rightarrow> write_table c v bn')"

text \<open>
  \<open>_to_ubyte\<close>: the buffer \<open>(c_ubyte * (c * (1 << nv)))()\<close> starts as zeros; the
  result is the buffer that \<open>byref(b)\<close> refers to.
\<close>

definition to_ubyte :: "nat \<Rightarrow> int list \<Rightarrow> error + c_ubyte list" where
  "to_ubyte nv v =
     (let c = to_ubyte_width nv;
          b = replicate (c * push_bit nv 1) 0
      in case write_table c v (b, 0) of Inl e \<Rightarrow> Inl e | Inr (b', n) \<Rightarrow> Inr b')"

definition lda ::
  "'n native_lib \<Rightarrow> QrackSimulator \<Rightarrow> int list \<Rightarrow> int list \<Rightarrow> int list \<Rightarrow> 'n world
     \<Rightarrow> 'n world \<times> (error + unit)" where
  "lda lib self qi qv t w =
     (case to_ubyte (length qv) t of
        Inl e \<Rightarrow> (w, Inl e)
      | Inr b \<Rightarrow>
          (fst (call lib (Lib_LDA (sid self) (length qi) (uint_byref qi)
                            (length qv) (uint_byref qv) b) w), Inr ()))"

definition adc ::
  "'n native_lib \<Rightarrow> QrackSimulator \<Rightarrow> int \<Rightarrow> int list \<Rightarrow> int list \<Rightarrow> int list \<Rightarrow> 'n world
     \<Rightarrow> 'n world \<times> (error + unit)" where
  "adc lib self s qi qv t w =
     (case to_ubyte (length qv) t of
        Inl e \<Rightarrow> (w, Inl e)
      | Inr b \<Rightarrow>
          (fst (call lib (Lib_ADC (sid self) s (length qi) (uint_byref qi)
                            (length qv) (uint_byref qv) b) w), Inr ()))"

definition sbc ::
  "'n native_lib \<Rightarrow> QrackSimulator \<Rightarrow> int \<Rightarrow> int list \<Rightarrow> int list \<Rightarrow> int list \<Rightarrow> 'n world
     \<Rightarrow> 'n world \<times> (error + unit)" where
  "sbc lib self s qi qv t w =
     (case to_ubyte (length qv) t of
        Inl e \<Rightarrow> (w, Inl e)
      | Inr b \<Rightarrow>
          (fst (call lib (Lib_SBC (sid self) s (length qi) (uint_byref qi)
                            (length qv) (uint_byref qv) b) w), Inr ()))"

definition hash ::
  "'n native_lib \<Rightarrow> QrackSimulator \<Rightarrow> int list \<Rightarrow> int list \<Rightarrow> 'n world
     \<Rightarrow> 'n world \<times> (error + unit)" where
  "hash lib self q t w =
     (case to_ubyte (length q) t of
        Inl e \<Rightarrow> (w, Inl e)
      | Inr b \<Rightarrow>
          (fst (call lib (Lib_Hash (sid self) (length q) (uint_byref q) b) w), Inr ()))"

subsection \<open>\<open>prob\<close>, \<open>measure_shots\<close> and \<open>decompose\<close>\<close>

definition prob :: "'n native_lib \<Rightarrow> QrackSimulator \<Rightarrow> int \<Rightarrow> 'n world \<Rightarrow> 'n world \<times> ret" where
  "prob lib self q w = call lib (Lib_Prob (sid self) q) w"

text \<open>
  The native function writes into the buffer it is handed; the size of a ctypes array
  is fixed when it is made.
\<close>

fun written :: "c_uint list \<Rightarrow> ret \<Rightarrow> c_uint list" where
  "written m (RBuf out) = take (length m) out @ drop (length out) m"
| "written m _ = m"

text \<open>
  \<open>measure_shots\<close>: \<open>[0] * s\<close> is the empty list when \<open>s\<close> is not positive, and so is
  \<open>range(s)\<close>.
\<close>

definition measure_shots ::
  "'n native_lib \<Rightarrow> QrackSimulator \<Rightarrow> int list \<Rightarrow> int \<Rightarrow> 'n world \<Rightarrow> 'n world \<times> int list" where
  "measure_shots lib self q s w =
     (let m = uint_byref (replicate (nat s) 0);
          (w', r) = call lib (Lib_MeasureShots (sid self) (length q) (uint_byref q) s m) w;
          m = written m r
      in (w', map (\<lambda>i. uint (m ! i)) [0..<nat s]))"

text \<open>
  \<open>decompose\<close>: \<open>QrackSimulator()\<close> is the constructor with the defaults of its
  signature; \<open>self.sid\<close> is not assigned.
\<close>

definition decompose ::
  "'n native_lib \<Rightarrow> QrackSimulator \<Rightarrow> int list \<Rightarrow> 'n world
     \<Rightarrow> 'n world \<times> (error + QrackSimulator)" where
  "decompose lib self q w =
     (case qs_init lib (-1) (-1) default_options None w of
        (w1, other, Inl e) \<Rightarrow> (w1, Inl e)
      | (w1, other, Inr _) \<Rightarrow>
          let w2 = fst (call lib (Lib_destroy (sid other)) w1);
              (w3, r) = call lib (Lib_Decompose (sid self) (length q) (uint_byref q)) w2
          in (w3, Inr (other\<lparr>sid := as_sid r\<rparr>)))"

section \<open>The simulation core, from the specification\<close>

text \<open>
  Modelled from the spec: the native library behind \<open>Qrack.qrack_lib\<close> (the simulation
  core; the binding only loads it). What the specification leaves to the numerics of
  the core is a field of this record: \<open>eng_alloc\<close> picks the identifier of a new
  register given the identifiers in the registry (section 3, "a stable identifier");
  \<open>eng_fresh\<close> is the state of a fresh register for a qubit count and a configuration
  bundle (section 6); \<open>eng_seed\<close> is the randomness source a new register owns
  (section 5); \<open>eng_owns\<close> says that a qubit index is valid in a state;
  \<open>eng_prob\<close> is P(qubit = 1) (section 4.4); \<open>eng_shot\<close> is the outcome of the k-th
  hypothetical independent measurement of a qubit subset, drawn from the distribution
  of the state with the register's randomness (section 4.4); \<open>eng_advance\<close> is the
  randomness source after a number of shots; \<open>eng_split\<close> factors a state into the
  state of a subset and the state of the remainder when the subset is exactly
  unentangled from the remainder, and is \<open>None\<close> otherwise (section 4.6);
  \<open>eng_other\<close> is every other operation on the registry.
\<close>

record ('q, 'r) engine =
  eng_alloc :: "int list \<Rightarrow> int"
  eng_fresh :: "int \<Rightarrow> bool list \<Rightarrow> 'q"
  eng_seed :: "int \<Rightarrow> 'r"
  eng_owns :: "'q \<Rightarrow> int \<Rightarrow> bool"
  eng_prob :: "'q \<Rightarrow> int \<Rightarrow> real"
  eng_shot :: "'q \<Rightarrow> c_uint list \<Rightarrow> 'r \<Rightarrow> nat \<Rightarrow> c_uint"
  eng_advance :: "'r \<Rightarrow> nat \<Rightarrow> 'r"
  eng_split :: "'q \<Rightarrow> c_uint list \<Rightarrow> ('q \<times> 'q) option"
  eng_other :: "native_call \<Rightarrow> (int \<times> 'q \<times> 'r) list \<Rightarrow> ret \<times> (int \<times> 'q \<times> 'r) list"

text \<open>
  Modelled from the spec: the process-wide registry of the native library (section 9,
  "opaque simulator identifiers in a process-wide registry"), which maps the
  identifier of each live register to its quantum state and its randomness source,
  and a flag that a precondition violation has happened (section 7, "fail fast and
  loud").
\<close>

record ('q, 'r) qrack =
  regs :: "(int \<times> 'q \<times> 'r) list"
  failed :: bool

text \<open>
  Modelled from the spec: a precondition violation (section 7) aborts the operation;
  the native state is left as it is and marked as failed.
\<close>

definition violation :: "('q, 'r) qrack \<Rightarrow> ret \<times> ('q, 'r) qrack" where
  "violation n = (RNone, n\<lparr>failed := True\<rparr>)"

text \<open>
  Modelled from the spec: the register that a handle denotes, if it is live (section
  6, "using a Register handle after destruction is a precondition violation").
\<close>

definition lookup :: "('q, 'r) qrack \<Rightarrow> handle \<Rightarrow> (int \<times> 'q \<times> 'r) option" where
  "lookup n h =
     (case h of
        None \<Rightarrow> None
      | Some i \<Rightarrow>
          (case map_of (regs n) i of None \<Rightarrow> None | Some (st, rg) \<Rightarrow> Some (i, st, rg)))"

text \<open>
  Modelled from the spec: a new register enters the registry under a new identifier,
  which is returned (section 3, lifecycle "created by allocation").
\<close>

definition create :: "('q, 'r) engine \<Rightarrow> 'q \<Rightarrow> ('q, 'r) qrack \<Rightarrow> ret \<times> ('q, 'r) qrack" where
  "create eng st n =
     (let i = eng_alloc eng (map fst (regs n))
      in (RInt i, n\<lparr>regs := AList.update i (st, eng_seed eng i) (regs n)\<rparr>))"

text \<open>
  Modelled from the spec: the native entry points that the binding's constructor,
  destructor, \<open>prob\<close>, \<open>measure_shots\<close> and \<open>decompose\<close> call.
  \<^item> Construction (section 6): "create a Register with a given qubit count and a
    configuration bundle; or clone an existing Register's full state into a new
    independent one".
  \<^item> Destruction (section 6): "release all resources owned by a Register".
  \<^item> Probability query (section 4.4): "returns P(qubit=1) without collapsing state,
    pure read"; a qubit index out of range is a precondition violation (section 4.1).
  \<^item> Repeated-shot sampling (section 4.4): "given a qubit subset and a shot count,
    returns that many classical outcomes drawn from the current state's distribution
    without mutating the persistent state"; sampling a released qubit index is a
    precondition violation. The randomness source is owned by the register
    (section 5) and is consumed.
  \<^item> Decompose (section 4.6): "produce a new independent register holding exactly that
    subset, provided the subset is exactly unentangled from the remainder at the time
    of the call; the remainder register retains its identity with the subset qubits
    removed". The specification leaves an entangled subset open (section 9); it is a
    violation here.
  \<^item> Every other entry point is the engine's \<open>eng_other\<close>.
\<close>

fun qrack_lib :: "('q, 'r) engine \<Rightarrow> native_call \<Rightarrow> ('q, 'r) qrack \<Rightarrow> ret \<times> ('q, 'r) qrack" where
  "qrack_lib eng (Lib_init_count_type k a b c d e f g) n =
     create eng (eng_fresh eng k [a, b, c, d, e, f, g]) n"
| "qrack_lib eng (Lib_init_clone src) n =
     (case lookup n (Some src) of
        None \<Rightarrow> violation n
      | Some (i, st, rg) \<Rightarrow> create eng st n)"
| "qrack_lib eng (Lib_destroy h) n =
     (case lookup n h of
        None \<Rightarrow> violation n
      | Some (i, st, rg) \<Rightarrow> (RNone, n\<lparr>regs := AList.delete i (regs n)\<rparr>))"
| "qrack_lib eng (Lib_Prob h q) n =
     (case lookup n h of
        None \<Rightarrow> violation n
      | Some (i, st, rg) \<Rightarrow>
          if eng_owns eng st q then (RDouble (eng_prob eng st q), n) else violation n)"
| "qrack_lib eng (Lib_MeasureShots h k qs s m) n =
     (case lookup n h of
        None \<Rightarrow> violation n
      | Some (i, st, rg) \<Rightarrow>
          if list_all (\<lambda>q. eng_owns eng st (uint q)) qs then
            (RBuf (map (eng_shot eng st qs rg) [0..<nat s]),
             n\<lparr>regs := AList.update i (st, eng_advance eng rg (nat s)) (regs n)\<rparr>)
          else violation n)"
| "qrack_lib eng (Lib_Decompose h k qs) n =
     (case lookup n h of
        None \<Rightarrow> violation n
      | Some (i, st, rg) \<Rightarrow>
          (case eng_split eng st qs of
             None \<Rightarrow> violation n
           | Some (sub, rest) \<Rightarrow>
               create eng sub (n\<lparr>regs := AList.update i (rest, rg) (regs n)\<rparr>)))"
| "qrack_lib eng c n = (case eng_other eng c (regs n) of (r, rs) \<Rightarrow> (r, n\<lparr>regs := rs\<rparr>))"

text \<open>
  Modelled from the spec: the persistent state of the registers, that is the quantum
  state of every live register, without the randomness sources.
\<close>

definition qstates :: "('q, 'r) qrack \<Rightarrow> int \<Rightarrow> 'q option" where
  "qstates n = map_option fst \<circ> map_of (regs n)"

section \<open>Notions used by the properties\<close>

text \<open>Native calls to \<open>FSim\<close> and to \<open>destroy\<close> in a trace.\<close>

fun is_fsim :: "native_call \<Rightarrow> bool" where
  "is_fsim (Lib_FSim _ _ _ _ _) = True"
| "is_fsim _ = False"

fun is_destroy :: "native_call \<Rightarrow> bool" where
  "is_destroy (Lib_destroy _) = True"
| "is_destroy _ = False"

text \<open>
  The gate names that the chain of \<open>run_pyzx_gates\<close> compares with before the
  \<open>'FSim'\<close> condition, and all the names that the chain mentions.
\<close>

definition preceding_names :: "string list" where
  "preceding_names =
     [''XPhase'', ''ZPhase'', ''Z'', ''S'', ''T'', ''NOT'', ''HAD'', ''CNOT'',
      ''CZ'', ''CX'', ''SWAP'', ''CRZ'', ''CHAD'', ''ParityPhase'']"

definition recognized_names :: "string list" where
  "recognized_names = preceding_names @ [''FSim'', ''CCZ'', ''Tof'']"

text \<open>
  The qubit count that the constructor tests: the count of the foreign circuit when
  one is passed, the argument \<open>qubitCount\<close> otherwise.
\<close>

definition effective_count :: "int \<Rightarrow> pyzx_circuit option \<Rightarrow> int" where
  "effective_count qubitCount pyzxCircuit =
     (case pyzxCircuit of None \<Rightarrow> qubitCount | Some c \<Rightarrow> qubits c)"

text \<open>\<open>__del__\<close> run \<open>k\<close> times in a row on the same object.\<close>

fun qs_del_times ::
  "nat \<Rightarrow> 'n native_lib \<Rightarrow> QrackSimulator \<Rightarrow> 'n world \<Rightarrow> 'n world \<times> QrackSimulator" where
  "qs_del_times 0 lib self w = (w, self)"
| "qs_del_times (Suc k) lib self w =
     (case qs_del lib self w of (w', self') \<Rightarrow> qs_del_times k lib self' w')"

text \<open>
  The layout of one table entry in the words of the property: \<open>c\<close> bytes, least
  significant first, byte \<open>i\<close> holding the bits \<open>8 i\<close> to \<open>8 i + 7\<close> of the entry.
\<close>

definition little_endian :: "nat \<Rightarrow> int \<Rightarrow> c_ubyte list" where
  "little_endian c u = map (\<lambda>i. word_of_int (u div 2 ^ (8 * i))) [0..<c]"

section \<open>Concrete inputs\<close>

text \<open>A native library that hands out the handles 0, 1, 2, ... and does nothing else.\<close>

fun counter_lib :: "nat native_lib" where
  "counter_lib (Lib_init_clone _) n = (RInt (int n), Suc n)"
| "counter_lib (Lib_init_count_type _ _ _ _ _ _ _ _) n = (RInt (int n), Suc n)"
| "counter_lib (Lib_Decompose _ _ _) n = (RInt (int n), Suc n)"
| "counter_lib _ n = (RNone, n)"

definition world0 :: "nat world" where
  "world0 = \<lparr>trace = [], nst = 0\<rparr>"

text \<open>A configuration that differs from the defaults in every option.\<close>

definition other_options :: options where
  "other_options =
     \<lparr>isMultiDevice = False, isSchmidtDecompose = False, isStabilizerHybrid = False,
      isBinaryDecisionTree = True, isPaged = False, is1QbFusion = False,
      isCpuGpuHybrid = False\<rparr>"

definition gate0 :: gate where
  "gate0 = \<lparr>name = [], target = None, control = None, phase = None, targets = None\<rparr>"

text \<open>
  An engine on classical basis states: a state lists the value of each qubit, every
  subset is unentangled from the rest, and a measurement of a subset packs its bits.
\<close>

definition toy_outcome :: "(int \<times> bool) list \<Rightarrow> c_uint list \<Rightarrow> c_uint" where
  "toy_outcome st qs =
     foldr (\<lambda>q acc. (if map_of st (uint q) = Some True then 1 else 0) + 2 * acc) qs 0"

definition toy_engine :: "((int \<times> bool) list, nat) engine" where
  "toy_engine =
     \<lparr>eng_alloc = (\<lambda>ks. fold max ks (-1) + 1),
      eng_fresh = (\<lambda>k opts. map (\<lambda>j. (int j, False)) [0..<nat k]),
      eng_seed = (\<lambda>i. 0),
      eng_owns = (\<lambda>st q. q \<in> set (map fst st)),
      eng_prob = (\<lambda>st q. if map_of st q = Some True then 1 else 0),
      eng_shot = (\<lambda>st qs rg k. toy_outcome st qs),
      eng_advance = (\<lambda>rg k. rg + k),
      eng_split = (\<lambda>st qs.
         if list_all (\<lambda>q. uint q \<in> set (map fst st)) qs
         then Some (filter (\<lambda>(q, b). q \<in> set (map uint qs)) st,
                    filter (\<lambda>(q, b). q \<notin> set (map uint qs)) st)
         else None),
      eng_other = (\<lambda>c rs. (RNone, rs))\<rparr>"

definition toy_world :: "((int \<times> bool) list, nat) qrack world" where
  "toy_world =
     \<lparr>trace = [],
      nst = \<lparr>regs = [(0, [(0, True), (1, False), (2, True)], 0), (1, [(0, False)], 0)],
             failed = False\<rparr>\<rparr>"

section \<open>Properties\<close>

subsection \<open>Traces\<close>

lemma trace_call: "trace (fst (call lib c w)) = trace w @ [c]"
  by (simp add: call_def split: prod.splits)

lemmas gate_defs = phase_parity_def x_gate_def z_gate_def h_gate_def s_gate_def t_gate_def
  mcx_def mcz_def mch_def r_gate_def mcr_def swap_gate_def

lemma gate_methods_fsim:
  "filter is_fsim (trace (phase_parity lib self la tgs w)) = filter is_fsim (trace w)"
  "filter is_fsim (trace (x_gate lib self q w)) = filter is_fsim (trace w)"
  "filter is_fsim (trace (z_gate lib self q w)) = filter is_fsim (trace w)"
  "filter is_fsim (trace (h_gate lib self q w)) = filter is_fsim (trace w)"
  "filter is_fsim (trace (s_gate lib self q w)) = filter is_fsim (trace w)"
  "filter is_fsim (trace (t_gate lib self q w)) = filter is_fsim (trace w)"
  "filter is_fsim (trace (mcx lib self c q w)) = filter is_fsim (trace w)"
  "filter is_fsim (trace (mcz lib self c q w)) = filter is_fsim (trace w)"
  "filter is_fsim (trace (mch lib self c q w)) = filter is_fsim (trace w)"
  "filter is_fsim (trace (r_gate lib self b ph q w)) = filter is_fsim (trace w)"
  "filter is_fsim (trace (fst (mcr lib self b ph c q w))) = filter is_fsim (trace w)"
  "filter is_fsim (trace (swap_gate lib self q1 q2 w)) = filter is_fsim (trace w)"
  by (simp_all add: gate_defs trace_call)

lemma attr_fsim:
  assumes "\<And>a. filter is_fsim (trace (fst (k a))) = filter is_fsim (trace w)"
  shows "filter is_fsim (trace (fst (attr v w k))) = filter is_fsim (trace w)"
  using assms by (cases v) (simp_all add: attr_def)

lemma run_gate_fsim:
  "filter is_fsim (trace (fst (run_gate lib self g w))) = filter is_fsim (trace w)"
  unfolding run_gate_def Let_def
  by (simp add: attr_fsim gate_methods_fsim)

lemma run_pyzx_gates_fsim:
  "filter is_fsim (trace (fst (run_pyzx_gates lib self gs w))) = filter is_fsim (trace w)"
proof (induction gs arbitrary: w)
  case Nil
  show ?case by simp
next
  case (Cons g gs)
  obtain w' res where step: "run_gate lib self g w = (w', res)"
    by (cases "run_gate lib self g w")
  have w': "filter is_fsim (trace w') = filter is_fsim (trace w)"
    using run_gate_fsim [of lib self g w] step by simp
  show ?case
  proof (cases res)
    case (Inl e)
    with step w' show ?thesis by simp
  next
    case (Inr u)
    with step w' Cons.IH [of w'] show ?thesis by simp
  qed
qed

lemma gate_methods_prefix:
  "prefix (trace w) (trace (phase_parity lib self la tgs w))"
  "prefix (trace w) (trace (x_gate lib self q w))"
  "prefix (trace w) (trace (z_gate lib self q w))"
  "prefix (trace w) (trace (h_gate lib self q w))"
  "prefix (trace w) (trace (s_gate lib self q w))"
  "prefix (trace w) (trace (t_gate lib self q w))"
  "prefix (trace w) (trace (mcx lib self c q w))"
  "prefix (trace w) (trace (mcz lib self c q w))"
  "prefix (trace w) (trace (mch lib self c q w))"
  "prefix (trace w) (trace (r_gate lib self b ph q w))"
  "prefix (trace w) (trace (fst (mcr lib self b ph c q w)))"
  "prefix (trace w) (trace (swap_gate lib self q1 q2 w))"
  by (simp_all add: gate_defs trace_call)

lemma attr_prefix:
  assumes "\<And>a. prefix tr (trace (fst (k a)))" and "prefix tr (trace w)"
  shows "prefix tr (trace (fst (attr v w k)))"
  using assms by (cases v) (simp_all add: attr_def)

lemma cx_prefix:
  "prefix (trace w) (trace (h_gate lib self c (mcx lib self [c] tg (h_gate lib self c w))))"
  by (simp add: gate_defs trace_call)

lemma run_gate_prefix: "prefix (trace w) (trace (fst (run_gate lib self g w)))"
  unfolding run_gate_def Let_def
  by (simp add: attr_prefix gate_methods_prefix cx_prefix)

lemma run_pyzx_gates_prefix: "prefix (trace w) (trace (fst (run_pyzx_gates lib self gs w)))"
proof (induction gs arbitrary: w)
  case Nil
  show ?case by simp
next
  case (Cons g gs)
  obtain w' res where step: "run_gate lib self g w = (w', res)"
    by (cases "run_gate lib self g w")
  have w': "prefix (trace w) (trace w')"
    using run_gate_prefix [of w lib self g] step by simp
  show ?case
  proof (cases res)
    case (Inl e)
    with step w' show ?thesis by simp
  next
    case (Inr u)
    have "prefix (trace w') (trace (fst (run_pyzx_gates lib self gs w')))"
      by (rule Cons.IH)
    with w' have "prefix (trace w) (trace (fst (run_pyzx_gates lib self gs w')))"
      by (rule prefix_order.trans)
    with step Inr show ?thesis by simp
  qed
qed

subsection \<open>Errors of \<open>run_pyzx_gates\<close>\<close>

lemma run_gate_unmatched:
  "name g \<notin> set preceding_names \<Longrightarrow> run_gate lib self g w = (w, Inl (NameError ''game''))"
  by (simp add: run_gate_def preceding_names_def)

lemma attr_not_runtime:
  assumes "\<And>a. snd (k a) \<noteq> Inl (RuntimeError m)"
  shows "snd (attr (getattr n v) w k) \<noteq> Inl (RuntimeError m)"
  using assms by (cases v) (simp_all add: attr_def getattr_def)

lemma run_gate_not_runtime: "snd (run_gate lib self g w) \<noteq> Inl (RuntimeError m)"
  unfolding run_gate_def Let_def
  by (simp add: attr_not_runtime mcr_def)

lemma run_pyzx_gates_not_runtime: "snd (run_pyzx_gates lib self gs w) \<noteq> Inl (RuntimeError m)"
proof (induction gs arbitrary: w)
  case Nil
  show ?case by simp
next
  case (Cons g gs)
  obtain w' res where step: "run_gate lib self g w = (w', res)"
    by (cases "run_gate lib self g w")
  show ?case
  proof (cases res)
    case (Inl e)
    with step run_gate_not_runtime [of lib self g w m] show ?thesis by simp
  next
    case (Inr u)
    with step Cons.IH [of w'] show ?thesis by simp
  qed
qed

lemma run_pyzx_gates_unmatched:
  assumes "g \<in> set gs" and "name g \<notin> set preceding_names"
  shows "\<exists>e. snd (run_pyzx_gates lib self gs w) = Inl e"
  using assms(1)
proof (induction gs arbitrary: w)
  case Nil
  then show ?case by simp
next
  case (Cons h gs)
  obtain w' res where step: "run_gate lib self h w = (w', res)"
    by (cases "run_gate lib self h w")
  show ?case
  proof (cases res)
    case (Inl e)
    with step show ?thesis by simp
  next
    case (Inr u)
    have "h \<noteq> g"
      using run_gate_unmatched [OF assms(2), of lib self w] step Inr by auto
    with Cons.prems have "g \<in> set gs" by simp
    from Cons.IH [OF this, of w'] step Inr show ?thesis by simp
  qed
qed

subsection \<open>The constructor\<close>

lemma call_int_ok:
  "convertible i \<Longrightarrow> call_int lib i c w = (fst (call lib c w), Inr (snd (call lib c w)))"
  by (simp add: call_int_def split: prod.splits)

lemma call_int_refused: "\<not> convertible i \<Longrightarrow> call_int lib i c w = (w, Inl ArgumentError)"
  by (simp add: call_int_def)

lemma convertible_nonneg: "0 \<le> i \<Longrightarrow> convertible i \<longleftrightarrow> i < 2 ^ 64"
  by (simp add: convertible_def)

text \<open>
  What the constructor does once the test of line 22 has passed and the creation call
  \<open>c\<close>, with the plain integer \<open>i\<close>, is chosen.
\<close>

lemma qs_init_created:
  assumes "convertible i"
    and "qs_init lib qubitCount cloneSid opts pyzxCircuit w
       = (case call_int lib i c w of
            (w1, Inl e) \<Rightarrow> (w1, \<lparr>sid = None\<rparr>, Inl e)
          | (w1, Inr r) \<Rightarrow>
              (case pyzxCircuit of
                 None \<Rightarrow> (w1, \<lparr>sid = as_sid r\<rparr>, Inr ())
               | Some circ \<Rightarrow>
                   (case run_pyzx_gates lib \<lparr>sid = as_sid r\<rparr> (gates circ) w1 of
                      (w2, res) \<Rightarrow> (w2, \<lparr>sid = as_sid r\<rparr>, res))))"
  shows "case qs_init lib qubitCount cloneSid opts pyzxCircuit w of (w', self, res) \<Rightarrow>
           res \<noteq> Inl (RuntimeError clone_and_count_msg)
           \<and> prefix (trace w @ [c]) (trace w')
           \<and> sid self = as_sid (snd (call lib c w))"
proof -
  obtain w1 r where c: "call lib c w = (w1, r)"
    by (cases "call lib c w")
  have tr1: "trace w1 = trace w @ [c]"
    using trace_call [of lib c w] c by simp
  have ci: "call_int lib i c w = (w1, Inr r)"
    using call_int_ok [OF assms(1), of lib c w] c by simp
  show ?thesis
  proof (cases pyzxCircuit)
    case None
    with assms(2) ci c tr1 show ?thesis by simp
  next
    case (Some circ)
    obtain w2 res where run: "run_pyzx_gates lib \<lparr>sid = as_sid r\<rparr> (gates circ) w1 = (w2, res)"
      by (cases "run_pyzx_gates lib \<lparr>sid = as_sid r\<rparr> (gates circ) w1")
    have "prefix (trace w1) (trace w2)"
      using run_pyzx_gates_prefix [of w1 lib "\<lparr>sid = as_sid r\<rparr>" "gates circ"] run by simp
    moreover have "res \<noteq> Inl (RuntimeError clone_and_count_msg)"
      using run_pyzx_gates_not_runtime [of lib "\<lparr>sid = as_sid r\<rparr>" "gates circ" w1] run by simp
    ultimately show ?thesis
      using Some assms(2) ci c tr1 run by simp
  qed
qed

lemma qs_init_refused:
  assumes "\<not> convertible i"
    and "qs_init lib qubitCount cloneSid opts pyzxCircuit w
       = (case call_int lib i c w of
            (w1, Inl e) \<Rightarrow> (w1, \<lparr>sid = None\<rparr>, Inl e)
          | (w1, Inr r) \<Rightarrow> k w1 r)"
  shows "case qs_init lib qubitCount cloneSid opts pyzxCircuit w of (w', self, res) \<Rightarrow>
           res \<noteq> Inl (RuntimeError clone_and_count_msg)
           \<and> w' = w \<and> sid self = None \<and> res = Inl ArgumentError"
  using assms(2) call_int_refused [OF assms(1), of lib c w] by simp

text \<open>
  Claim C1, as stated, at two concrete inputs. The call
  \<open>QrackSimulator(cloneSid=0, pyzxCircuit=c)\<close> with a circuit \<open>c\<close> of two qubits
  and no gates supplies a clone source and no qubit count (\<open>qubitCount\<close> keeps its
  default -1), and the constructor raises the error all the same, because line 20
  replaces \<open>qubitCount\<close> by the qubit count of the circuit before the test. The call
  \<open>QrackSimulator(qubitCount=2**64)\<close> supplies a qubit count only, and no register is
  created: ctypes refuses the integer.
\<close>

theorem qs_init_circuit_counterexample:
  "\<not> ((-1::int) > -1 \<and> (0::int) > -1) \<and>
   qs_init counter_lib (-1) 0 default_options (Some \<lparr>qubits = 2, gates = []\<rparr>) world0
     = (world0, \<lparr>sid = None\<rparr>, Inl (RuntimeError clone_and_count_msg))
   \<and> \<not> ((2 ^ 64 :: int) > -1 \<and> (-1::int) > -1) \<and>
   qs_init counter_lib (2 ^ 64) (-1) default_options None world0
     = (world0, \<lparr>sid = None\<rparr>, Inl ArgumentError)"
  by (simp add: qs_init_def call_int_def convertible_def)

text \<open>
  Claim C1, amended: let the qubit count be the one of the foreign circuit when a
  circuit is passed and the argument \<open>qubitCount\<close> otherwise. When this count and the
  clone source id are both greater than -1, the constructor raises the error before
  any native call: the world is unchanged and \<open>sid\<close> is \<open>None\<close>. Otherwise the
  constructor does not raise this error. With a clone source id greater than -1 and
  below \<open>2^64\<close>, the first native call it issues is \<open>init_clone\<close> of that id; with no
  clone source id and a count below \<open>2^64\<close>, it is \<open>init_count_type\<close> with the count
  (0 for a negative count) and the seven configuration options of the call, in the
  order of the signature; in both cases \<open>sid\<close> is what this call returned. From
  \<open>2^64\<close> on ctypes refuses the integer: the constructor raises \<open>ArgumentError\<close> before
  any native call and \<open>sid\<close> is \<open>None\<close>.
\<close>

theorem qs_init_clone_and_count:
  "(effective_count qubitCount pyzxCircuit > -1 \<and> cloneSid > -1 \<longrightarrow>
      qs_init lib qubitCount cloneSid opts pyzxCircuit w
        = (w, \<lparr>sid = None\<rparr>, Inl (RuntimeError clone_and_count_msg)))
   \<and> (\<not> effective_count qubitCount pyzxCircuit > -1 \<and> cloneSid > -1 \<longrightarrow>
        (case qs_init lib qubitCount cloneSid opts pyzxCircuit w of (w', self, res) \<Rightarrow>
           res \<noteq> Inl (RuntimeError clone_and_count_msg)
           \<and> (if cloneSid < 2 ^ 64
               then prefix (trace w @ [Lib_init_clone cloneSid]) (trace w')
                    \<and> sid self = as_sid (snd (call lib (Lib_init_clone cloneSid) w))
               else w' = w \<and> sid self = None \<and> res = Inl ArgumentError)))
   \<and> (\<not> cloneSid > -1 \<longrightarrow>
        (case qs_init lib qubitCount cloneSid opts pyzxCircuit w of (w', self, res) \<Rightarrow>
           res \<noteq> Inl (RuntimeError clone_and_count_msg)
           \<and> (if max 0 (effective_count qubitCount pyzxCircuit) < 2 ^ 64
               then prefix
                      (trace w @
                        [Lib_init_count_type (max 0 (effective_count qubitCount pyzxCircuit))
                           (isMultiDevice opts) (isSchmidtDecompose opts)
                           (isStabilizerHybrid opts) (isBinaryDecisionTree opts)
                           (isPaged opts) (is1QbFusion opts) (isCpuGpuHybrid opts)])
                      (trace w')
                    \<and> sid self = as_sid (snd (call lib
                        (Lib_init_count_type (max 0 (effective_count qubitCount pyzxCircuit))
                           (isMultiDevice opts) (isSchmidtDecompose opts)
                           (isStabilizerHybrid opts) (isBinaryDecisionTree opts)
                           (isPaged opts) (is1QbFusion opts) (isCpuGpuHybrid opts)) w))
               else w' = w \<and> sid self = None \<and> res = Inl ArgumentError)))"
proof (intro conjI impI)
  assume "effective_count qubitCount pyzxCircuit > -1 \<and> cloneSid > -1"
  then show "qs_init lib qubitCount cloneSid opts pyzxCircuit w
        = (w, \<lparr>sid = None\<rparr>, Inl (RuntimeError clone_and_count_msg))"
    by (simp add: qs_init_def effective_count_def)
next
  let ?c = "Lib_init_clone cloneSid"
  assume a: "\<not> effective_count qubitCount pyzxCircuit > -1 \<and> cloneSid > -1"
  then have conv: "convertible cloneSid \<longleftrightarrow> cloneSid < 2 ^ 64"
    by (intro convertible_nonneg) simp
  have unf: "qs_init lib qubitCount cloneSid opts pyzxCircuit w
       = (case call_int lib cloneSid ?c w of
            (w1, Inl e) \<Rightarrow> (w1, \<lparr>sid = None\<rparr>, Inl e)
          | (w1, Inr r) \<Rightarrow>
              (case pyzxCircuit of
                 None \<Rightarrow> (w1, \<lparr>sid = as_sid r\<rparr>, Inr ())
               | Some circ \<Rightarrow>
                   (case run_pyzx_gates lib \<lparr>sid = as_sid r\<rparr> (gates circ) w1 of
                      (w2, res) \<Rightarrow> (w2, \<lparr>sid = as_sid r\<rparr>, res))))"
    using a by (simp add: qs_init_def effective_count_def Let_def
        split: prod.splits sum.splits option.splits)
  show "case qs_init lib qubitCount cloneSid opts pyzxCircuit w of (w', self, res) \<Rightarrow>
           res \<noteq> Inl (RuntimeError clone_and_count_msg)
           \<and> (if cloneSid < 2 ^ 64
               then prefix (trace w @ [?c]) (trace w')
                    \<and> sid self = as_sid (snd (call lib ?c w))
               else w' = w \<and> sid self = None \<and> res = Inl ArgumentError)"
  proof (cases "cloneSid < 2 ^ 64")
    case True
    with conv have "convertible cloneSid" by simp
    from qs_init_created [OF this unf] True show ?thesis
      by (simp split: prod.splits)
  next
    case False
    with conv have "\<not> convertible cloneSid" by simp
    from qs_init_refused [OF this unf] False show ?thesis
      by (simp split: prod.splits)
  qed
next
  let ?n = "max 0 (effective_count qubitCount pyzxCircuit)"
  let ?c = "Lib_init_count_type ?n (isMultiDevice opts) (isSchmidtDecompose opts)
              (isStabilizerHybrid opts) (isBinaryDecisionTree opts) (isPaged opts)
              (is1QbFusion opts) (isCpuGpuHybrid opts)"
  assume a: "\<not> cloneSid > -1"
  have conv: "convertible ?n \<longleftrightarrow> ?n < 2 ^ 64"
    by (intro convertible_nonneg) simp
  have unf: "qs_init lib qubitCount cloneSid opts pyzxCircuit w
       = (case call_int lib ?n ?c w of
            (w1, Inl e) \<Rightarrow> (w1, \<lparr>sid = None\<rparr>, Inl e)
          | (w1, Inr r) \<Rightarrow>
              (case pyzxCircuit of
                 None \<Rightarrow> (w1, \<lparr>sid = as_sid r\<rparr>, Inr ())
               | Some circ \<Rightarrow>
                   (case run_pyzx_gates lib \<lparr>sid = as_sid r\<rparr> (gates circ) w1 of
                      (w2, res) \<Rightarrow> (w2, \<lparr>sid = as_sid r\<rparr>, res))))"
    using a by (simp add: qs_init_def effective_count_def Let_def max_def
        split: prod.splits sum.splits option.splits)
  show "case qs_init lib qubitCount cloneSid opts pyzxCircuit w of (w', self, res) \<Rightarrow>
           res \<noteq> Inl (RuntimeError clone_and_count_msg)
           \<and> (if ?n < 2 ^ 64
               then prefix (trace w @ [?c]) (trace w')
                    \<and> sid self = as_sid (snd (call lib ?c w))
               else w' = w \<and> sid self = None \<and> res = Inl ArgumentError)"
  proof (cases "?n < 2 ^ 64")
    case True
    with conv have "convertible ?n" by simp
    from qs_init_created [OF this unf] True show ?thesis
      by (simp split: prod.splits)
  next
    case False
    with conv have "\<not> convertible ?n" by simp
    from qs_init_refused [OF this unf] False show ?thesis
      by (simp split: prod.splits)
  qed
qed

theorem qs_init_clone_and_count_witness:
  "effective_count 3 None > -1 \<and> (0::int) > -1
   \<and> qs_init counter_lib 3 0 other_options None world0
       = (world0, \<lparr>sid = None\<rparr>, Inl (RuntimeError clone_and_count_msg))
   \<and> \<not> effective_count (-1) None > -1 \<and> (0::int) > -1 \<and> (0::int) < 2 ^ 64
   \<and> qs_init counter_lib (-1) 0 other_options None world0
       = (\<lparr>trace = [Lib_init_clone 0], nst = 1\<rparr>, \<lparr>sid = Some 0\<rparr>, Inr ())
   \<and> \<not> (-1::int) > -1 \<and> max 0 (effective_count 3 None) < 2 ^ 64
   \<and> qs_init counter_lib 3 (-1) other_options None world0
       = (\<lparr>trace = [Lib_init_count_type 3 False False False True False False False], nst = 1\<rparr>,
          \<lparr>sid = Some 0\<rparr>, Inr ())
   \<and> (case qs_init counter_lib 3 (-1) other_options None world0 of (w', self, res) \<Rightarrow>
         res \<noteq> Inl (RuntimeError clone_and_count_msg)
         \<and> prefix [Lib_init_count_type 3 False False False True False False False] (trace w')
         \<and> sid self = Some 0)
   \<and> (case qs_init counter_lib (-1) 0 other_options None world0 of (w', self, res) \<Rightarrow>
         res \<noteq> Inl (RuntimeError clone_and_count_msg)
         \<and> prefix [Lib_init_clone 0] (trace w') \<and> sid self = Some 0)"
proof -
  have h1: "effective_count 3 None > -1 \<and> (0::int) > -1"
    by (simp add: effective_count_def)
  have h2: "\<not> effective_count (-1) None > -1 \<and> (0::int) > -1"
    by (simp add: effective_count_def)
  have h3: "\<not> (-1::int) > -1"
    by simp
  have n3: "max 0 (effective_count 3 None) = 3"
    by (simp add: effective_count_def)
  have t1: "qs_init counter_lib 3 0 other_options None world0
       = (world0, \<lparr>sid = None\<rparr>, Inl (RuntimeError clone_and_count_msg))"
    by (rule qs_init_clone_and_count [of 3 None 0 counter_lib other_options world0,
          THEN conjunct1, THEN mp, OF h1])
  have "case qs_init counter_lib (-1) 0 other_options None world0 of (w', self, res) \<Rightarrow>
           res \<noteq> Inl (RuntimeError clone_and_count_msg)
           \<and> (if (0::int) < 2 ^ 64
               then prefix (trace world0 @ [Lib_init_clone 0]) (trace w')
                    \<and> sid self = as_sid (snd (call counter_lib (Lib_init_clone 0) world0))
               else w' = world0 \<and> sid self = None \<and> res = Inl ArgumentError)"
    by (rule qs_init_clone_and_count [of "-1" None 0 counter_lib other_options world0,
          THEN conjunct2, THEN conjunct1, THEN mp, OF h2])
  then have t2: "case qs_init counter_lib (-1) 0 other_options None world0 of (w', self, res) \<Rightarrow>
         res \<noteq> Inl (RuntimeError clone_and_count_msg)
         \<and> prefix [Lib_init_clone 0] (trace w') \<and> sid self = Some 0"
    by (simp add: world0_def call_def)
  have "case qs_init counter_lib 3 (-1) other_options None world0 of (w', self, res) \<Rightarrow>
           res \<noteq> Inl (RuntimeError clone_and_count_msg)
           \<and> (if max 0 (effective_count 3 None) < 2 ^ 64
               then prefix
                      (trace world0 @
                        [Lib_init_count_type (max 0 (effective_count 3 None))
                           (isMultiDevice other_options) (isSchmidtDecompose other_options)
                           (isStabilizerHybrid other_options) (isBinaryDecisionTree other_options)
                           (isPaged other_options) (is1QbFusion other_options)
                           (isCpuGpuHybrid other_options)])
                      (trace w')
                    \<and> sid self = as_sid (snd (call counter_lib
                        (Lib_init_count_type (max 0 (effective_count 3 None))
                           (isMultiDevice other_options) (isSchmidtDecompose other_options)
                           (isStabilizerHybrid other_options) (isBinaryDecisionTree other_options)
                           (isPaged other_options) (is1QbFusion other_options)
                           (isCpuGpuHybrid other_options)) world0))
               else w' = world0 \<and> sid self = None \<and> res = Inl ArgumentError)"
    by (rule qs_init_clone_and_count [of 3 None "-1" counter_lib other_options world0,
          THEN conjunct2, THEN conjunct2, THEN mp, OF h3])
  then have t3: "case qs_init counter_lib 3 (-1) other_options None world0 of (w', self, res) \<Rightarrow>
         res \<noteq> Inl (RuntimeError clone_and_count_msg)
         \<and> prefix [Lib_init_count_type 3 False False False True False False False] (trace w')
         \<and> sid self = Some 0"
    unfolding n3 by (simp add: world0_def call_def other_options_def)
  have e2: "qs_init counter_lib (-1) 0 other_options None world0
       = (\<lparr>trace = [Lib_init_clone 0], nst = 1\<rparr>, \<lparr>sid = Some 0\<rparr>, Inr ())"
    by (simp add: qs_init_def call_int_def convertible_def call_def world0_def)
  have e3: "qs_init counter_lib 3 (-1) other_options None world0
       = (\<lparr>trace = [Lib_init_count_type 3 False False False True False False False], nst = 1\<rparr>,
          \<lparr>sid = Some 0\<rparr>, Inr ())"
    by (simp add: qs_init_def call_int_def convertible_def call_def world0_def
        other_options_def)
  have "(0::int) < 2 ^ 64" and "max 0 (effective_count 3 None) < 2 ^ 64"
    by (simp_all add: n3)
  with h1 h2 h3 t1 t2 t3 e2 e3 show ?thesis
    by (intro conjI) (simp_all only: simp_thms)
qed

text \<open>
  Claim C9: a constructor call with a negative \<open>qubitCount\<close>, \<open>cloneSid = -1\<close> and
  no foreign circuit does not fail; it issues \<open>init_count_type\<close> with the count 0 and
  the seven configuration options of the call, in the order of the signature, and
  \<open>sid\<close> is the handle returned.
\<close>

theorem qs_init_negative_count:
  "qubitCount < 0 \<Longrightarrow>
     qs_init lib qubitCount (-1) opts None w
       = (fst (call lib
                 (Lib_init_count_type 0 (isMultiDevice opts) (isSchmidtDecompose opts)
                    (isStabilizerHybrid opts) (isBinaryDecisionTree opts) (isPaged opts)
                    (is1QbFusion opts) (isCpuGpuHybrid opts)) w),
          \<lparr>sid = as_sid (snd (call lib
                 (Lib_init_count_type 0 (isMultiDevice opts) (isSchmidtDecompose opts)
                    (isStabilizerHybrid opts) (isBinaryDecisionTree opts) (isPaged opts)
                    (is1QbFusion opts) (isCpuGpuHybrid opts)) w))\<rparr>,
          Inr ())
     \<and> trace (fst (qs_init lib qubitCount (-1) opts None w))
       = trace w @
           [Lib_init_count_type 0 (isMultiDevice opts) (isSchmidtDecompose opts)
              (isStabilizerHybrid opts) (isBinaryDecisionTree opts) (isPaged opts)
              (is1QbFusion opts) (isCpuGpuHybrid opts)]"
proof -
  let ?c = "Lib_init_count_type 0 (isMultiDevice opts) (isSchmidtDecompose opts)
              (isStabilizerHybrid opts) (isBinaryDecisionTree opts) (isPaged opts)
              (is1QbFusion opts) (isCpuGpuHybrid opts)"
  assume "qubitCount < 0"
  then have run: "qs_init lib qubitCount (-1) opts None w
       = (fst (call lib ?c w), \<lparr>sid = as_sid (snd (call lib ?c w))\<rparr>, Inr ())"
    by (simp add: qs_init_def call_int_def convertible_def split: prod.splits)
  have "trace (fst (call lib ?c w)) = trace w @ [?c]"
    by (rule trace_call)
  with run show ?thesis
    by simp
qed

theorem qs_init_negative_count_witness:
  "(-5::int) < 0 \<and>
   qs_init counter_lib (-5) (-1) other_options None world0
     = (\<lparr>trace = [Lib_init_count_type 0 False False False True False False False], nst = 1\<rparr>,
        \<lparr>sid = Some 0\<rparr>, Inr ())"
  using qs_init_negative_count [of "-5" counter_lib other_options world0]
  by (simp add: call_def world0_def other_options_def)

subsection \<open>The destructor\<close>

lemma qs_del_sid: "sid (snd (qs_del lib self w)) = None"
  by (simp add: qs_del_def)

lemma qs_del_times_None: "sid self = None \<Longrightarrow> qs_del_times k lib self w = (w, self)"
  by (induction k) (simp_all add: qs_del_def)

lemma qs_del_times_Suc: "qs_del_times (Suc k) lib self w = qs_del lib self w"
proof -
  obtain w' self' where d: "qs_del lib self w = (w', self')"
    by (cases "qs_del lib self w")
  then have "sid self' = None"
    using qs_del_sid [of lib self w] by simp
  then show ?thesis
    using d by (simp add: qs_del_times_None)
qed

lemma qs_del_count:
  "length (filter is_destroy (trace (fst (qs_del lib self w))))
     \<le> Suc (length (filter is_destroy (trace w)))"
  by (simp add: qs_del_def trace_call)

text \<open>
  Claim C8: however many times \<open>__del__\<close> runs on an object, the native \<open>destroy\<close> is
  called at most once: running it \<open>k + 1\<close> times is the same as running it once, the
  first run leaves \<open>sid\<close> at \<open>None\<close>, and the trace gains at most one \<open>destroy\<close>.
\<close>

theorem qs_del_idempotent:
  "qs_del_times (Suc k) lib self w = qs_del lib self w
   \<and> sid (snd (qs_del lib self w)) = None
   \<and> length (filter is_destroy (trace (fst (qs_del_times k lib self w))))
       \<le> Suc (length (filter is_destroy (trace w)))"
proof (intro conjI)
  show "qs_del_times (Suc k) lib self w = qs_del lib self w"
    by (rule qs_del_times_Suc)
  show "sid (snd (qs_del lib self w)) = None"
    by (rule qs_del_sid)
  show "length (filter is_destroy (trace (fst (qs_del_times k lib self w))))
       \<le> Suc (length (filter is_destroy (trace w)))"
  proof (cases k)
    case 0
    then show ?thesis by simp
  next
    case (Suc j)
    then show ?thesis
      using qs_del_times_Suc [of j lib self w] qs_del_count [of lib self w] by simp
  qed
qed

theorem qs_del_idempotent_witness:
  "qs_del_times 3 counter_lib \<lparr>sid = Some 0\<rparr> \<lparr>trace = [], nst = 1\<rparr>
     = (\<lparr>trace = [Lib_destroy (Some 0)], nst = 1\<rparr>, \<lparr>sid = None\<rparr>)
   \<and> length (filter is_destroy
        (trace (fst (qs_del_times 3 counter_lib \<lparr>sid = Some 0\<rparr> \<lparr>trace = [], nst = 1\<rparr>)))) = 1"
  using qs_del_idempotent [of 2 counter_lib "\<lparr>sid = Some 0\<rparr>" "\<lparr>trace = [], nst = 1\<rparr>"]
  by (simp add: qs_del_def call_def numeral_3_eq_3)

subsection \<open>Foreign gates\<close>

text \<open>
  Claim C2: a gate record whose name is none of the names of the dispatch chain makes
  \<open>run_pyzx_gates\<close> fail: the run of any sequence that contains it ends in an
  exception, and the record itself is not skipped, its step raises.
\<close>

theorem run_pyzx_gates_unrecognized:
  "g \<in> set gs \<Longrightarrow> name g \<notin> set recognized_names \<Longrightarrow>
     (\<exists>e. snd (run_pyzx_gates lib self gs w) = Inl e)
     \<and> run_gate lib self g w' = (w', Inl (NameError ''game''))"
  using run_pyzx_gates_unmatched [of g gs lib self w] run_gate_unmatched [of g lib self w']
  by (simp add: recognized_names_def)

theorem run_pyzx_gates_unrecognized_witness:
  "gate0\<lparr>name := ''Y'', target := Some 0\<rparr>
     \<in> set [gate0\<lparr>name := ''HAD'', target := Some 0\<rparr>, gate0\<lparr>name := ''Y'', target := Some 0\<rparr>]
   \<and> name (gate0\<lparr>name := ''Y'', target := Some 0\<rparr>) \<notin> set recognized_names
   \<and> run_pyzx_gates counter_lib \<lparr>sid = Some 0\<rparr>
        [gate0\<lparr>name := ''HAD'', target := Some 0\<rparr>, gate0\<lparr>name := ''Y'', target := Some 0\<rparr>] world0
      = (\<lparr>trace = [Lib_H (Some 0) 0], nst = 0\<rparr>, Inl (NameError ''game''))"
  using run_pyzx_gates_unrecognized [of "gate0\<lparr>name := ''Y'', target := Some 0\<rparr>"
      "[gate0\<lparr>name := ''HAD'', target := Some 0\<rparr>, gate0\<lparr>name := ''Y'', target := Some 0\<rparr>]"
      counter_lib "\<lparr>sid = Some 0\<rparr>" world0 "\<lparr>trace = [Lib_H (Some 0) 0], nst = 0\<rparr>"]
  by (simp add: gate0_def recognized_names_def preceding_names_def run_gate_def attr_def
      getattr_def h_gate_def call_def world0_def)

text \<open>
  Claim C4: a gate record whose name matches none of the names before \<open>'FSim'\<close> in the
  chain (a record named \<open>'FSim'\<close> among them) raises \<open>NameError\<close> for the undefined
  identifier \<open>game\<close> and issues no native call; a sequence that contains it never
  completes, and no run of \<open>run_pyzx_gates\<close> issues a native \<open>FSim\<close> call.
\<close>

theorem run_gate_fsim_branch:
  "name g \<notin> set preceding_names \<Longrightarrow>
     run_gate lib self g w = (w, Inl (NameError ''game''))
     \<and> (g \<in> set gs \<longrightarrow> snd (run_pyzx_gates lib self gs w0) \<noteq> Inr ())
     \<and> filter is_fsim (trace (fst (run_pyzx_gates lib self gs w0))) = filter is_fsim (trace w0)"
  using run_gate_unmatched [of g lib self w] run_pyzx_gates_unmatched [of g gs lib self w0]
    run_pyzx_gates_fsim [of lib self gs w0]
  by auto

theorem run_gate_fsim_branch_witness:
  "name (gate0\<lparr>name := ''FSim'', target := Some 1, control := Some 0\<rparr>) \<notin> set preceding_names
   \<and> run_gate counter_lib \<lparr>sid = Some 0\<rparr>
        (gate0\<lparr>name := ''FSim'', target := Some 1, control := Some 0\<rparr>) world0
      = (world0, Inl (NameError ''game''))
   \<and> run_pyzx_gates counter_lib \<lparr>sid = Some 0\<rparr>
        [gate0\<lparr>name := ''FSim'', target := Some 1, control := Some 0\<rparr>] world0
      = (world0, Inl (NameError ''game''))"
  using run_gate_fsim_branch [of "gate0\<lparr>name := ''FSim'', target := Some 1, control := Some 0\<rparr>"
      counter_lib "\<lparr>sid = Some 0\<rparr>" world0
      "[gate0\<lparr>name := ''FSim'', target := Some 1, control := Some 0\<rparr>]" world0]
  by (simp add: gate0_def preceding_names_def)

subsection \<open>\<open>try_separate_tolerance\<close>\<close>

text \<open>
  Claim C3 says that \<open>try_separate_tolerance(qs, t)\<close> attempts the decomposition with
  the tolerance \<open>t\<close> and returns the report. The source passes the undefined name
  \<open>tol\<close> instead of \<open>t\<close>: every call raises \<open>NameError\<close> and the native
  \<open>TrySeparateTol\<close> is never called.
\<close>

theorem try_separate_tolerance_raises:
  "try_separate_tolerance lib self qs t w = (w, Inl (NameError ''tol''))
   \<and> trace (fst (try_separate_tolerance lib self qs t w)) = trace w"
  by (simp add: try_separate_tolerance_def)

subsection \<open>Lookup tables\<close>

lemma low_byte: "(word_of_int (u AND 255) :: c_ubyte) = word_of_int u"
proof -
  have "(255 :: int) = mask 8" by (simp add: mask_eq_exp_minus_1)
  then have "u AND 255 = take_bit 8 u" by (simp add: take_bit_eq_mask)
  then show ?thesis by (simp add: word_of_int_eq_iff)
qed

lemma little_endian_0: "little_endian 0 u = []"
  by (simp add: little_endian_def)

lemma little_endian_Suc:
  "little_endian (Suc k) u = word_of_int u # little_endian k (drop_bit 8 u)"
proof -
  have "map (\<lambda>i. (word_of_int (u div 2 ^ (8 * i)) :: c_ubyte)) [0..<Suc k]
      = word_of_int (u div 2 ^ (8 * 0)) # map (\<lambda>i. word_of_int (u div 2 ^ (8 * Suc i))) [0..<k]"
    by (simp only: map_upt_Suc)
  moreover have "u div 2 ^ (8 * Suc i) = drop_bit 8 u div 2 ^ (8 * i)" for i
  proof -
    have "drop_bit 8 u div 2 ^ (8 * i) = drop_bit (8 * i) (drop_bit 8 u)"
      by (simp only: drop_bit_eq_div)
    also have "\<dots> = drop_bit (8 * i + 8) u"
      by (simp only: drop_bit_drop_bit)
    also have "\<dots> = u div 2 ^ (8 * Suc i)"
      by (simp only: drop_bit_eq_div mult_Suc_right add.commute)
    finally show ?thesis by simp
  qed
  ultimately show ?thesis
    by (simp add: little_endian_def)
qed

lemma length_little_endian: "length (little_endian c u) = c"
  by (simp add: little_endian_def)

lemma write_entry_fits:
  "n + k \<le> length b \<Longrightarrow>
     write_entry k u (b, n) = Inr (take n b @ little_endian k u @ drop (n + k) b, n + k)"
proof (induction k arbitrary: u b n)
  case 0
  then show ?case by (simp add: little_endian_0)
next
  case (Suc k)
  let ?b = "b[n := word_of_int (u AND 255)]"
  from Suc.prems have n: "n < length b" by simp
  from Suc.prems have "Suc n + k \<le> length ?b" by simp
  from Suc.IH [OF this, of "drop_bit 8 u"]
  have "write_entry k (drop_bit 8 u) (?b, Suc n)
      = Inr (take (Suc n) ?b @ little_endian k (drop_bit 8 u) @ drop (Suc n + k) ?b, Suc n + k)" .
  moreover have "take (Suc n) ?b = take n b @ [word_of_int u]"
    using n by (simp add: take_Suc_conv_app_nth low_byte)
  moreover have "drop (Suc n + k) ?b = drop (n + Suc k) b"
    by simp
  ultimately show ?case
    using n by (simp add: little_endian_Suc)
qed

lemma write_table_fits:
  "n + c * length v \<le> length b \<Longrightarrow>
     write_table c v (b, n)
       = Inr (take n b @ concat (map (little_endian c) v) @ drop (n + c * length v) b,
              n + c * length v)"
proof (induction v arbitrary: b n)
  case Nil
  then show ?case by simp
next
  case (Cons u v)
  let ?b = "take n b @ little_endian c u @ drop (n + c) b"
  from Cons.prems have fit: "n + c \<le> length b" by simp
  have len: "length ?b = length b"
    using fit by (simp add: length_little_endian)
  have step: "write_entry c u (b, n) = Inr (?b, n + c)"
    using fit by (rule write_entry_fits)
  from Cons.prems len have "(n + c) + c * length v \<le> length ?b"
    by (simp add: algebra_simps)
  from Cons.IH [OF this]
  have "write_table c v (?b, n + c)
      = Inr (take (n + c) ?b @ concat (map (little_endian c) v) @ drop (n + c + c * length v) ?b,
             n + c + c * length v)" .
  moreover have "take (n + c) ?b = take n b @ little_endian c u"
    using fit by (simp add: length_little_endian min_def)
  moreover have "drop (n + c + c * length v) ?b = drop (n + c * length (u # v)) b"
    using fit by (simp add: length_little_endian min_def algebra_simps)
  ultimately show ?case
    using step by (simp add: algebra_simps)
qed

lemma to_ubyte_width_pos: "1 \<le> nv \<Longrightarrow> to_ubyte_width nv = (nv - 1) div 8 + 1"
  by (simp add: to_ubyte_width_def nat_add_distrib zdiv_int nat_div_distrib of_nat_diff)

lemma to_ubyte_fits:
  assumes "length v \<le> 2 ^ nv"
  shows "to_ubyte nv v
     = Inr (concat (map (little_endian (to_ubyte_width nv)) v)
            @ replicate (to_ubyte_width nv * (2 ^ nv - length v)) 0)"
proof -
  let ?c = "to_ubyte_width nv"
  let ?b = "replicate (?c * 2 ^ nv) (0 :: c_ubyte)"
  have "0 + ?c * length v \<le> length ?b"
    using assms by simp
  from write_table_fits [OF this]
  have "write_table ?c v (?b, 0)
      = Inr (concat (map (little_endian ?c) v) @ drop (?c * length v) ?b, ?c * length v)"
    by simp
  moreover have "drop (?c * length v) ?b = replicate (?c * (2 ^ nv - length v)) 0"
    by (simp add: diff_mult_distrib2)
  ultimately show ?thesis
    by (simp add: to_ubyte_def Let_def)
qed

lemma nth_concat_uniform:
  "\<forall>l \<in> set xss. length l = c \<Longrightarrow> k < length xss \<Longrightarrow> i < c \<Longrightarrow>
     concat xss ! (c * k + i) = xss ! k ! i"
proof (induction xss arbitrary: k)
  case Nil
  then show ?case by simp
next
  case (Cons l xss)
  show ?case
  proof (cases k)
    case 0
    with Cons.prems show ?thesis by (simp add: nth_append)
  next
    case (Suc j)
    with Cons.prems have "concat xss ! (c * j + i) = xss ! j ! i"
      by (intro Cons.IH) simp_all
    moreover have "c * k + i - c = c * j + i"
      using Suc by simp
    moreover have "\<not> c * k + i < c"
      using Suc by simp
    ultimately show ?thesis
      using Cons.prems Suc by (simp add: nth_append)
  qed
qed

lemma little_endian_nth: "i < c \<Longrightarrow> little_endian c u ! i = word_of_int (u div 2 ^ (8 * i))"
  by (simp add: little_endian_def)

lemma table_bytes_nth:
  assumes "k < length v" and "i < c"
  shows "(concat (map (little_endian c) v) @ pad) ! (c * k + i) = word_of_int (v ! k div 2 ^ (8 * i))"
proof -
  have "c * k + i < c * length v"
  proof -
    have "c * k + i < c * k + c" using assms(2) by simp
    also have "\<dots> = c * Suc k" by simp
    also have "\<dots> \<le> c * length v" using assms(1) by (intro mult_le_mono2) simp
    finally show ?thesis .
  qed
  moreover have "length (concat (map (little_endian c) v)) = c * length v"
    by (induction v) (simp_all add: length_little_endian)
  ultimately have "(concat (map (little_endian c) v) @ pad) ! (c * k + i)
      = concat (map (little_endian c) v) ! (c * k + i)"
    by (simp add: nth_append)
  also have "\<dots> = map (little_endian c) v ! k ! i"
    using assms by (intro nth_concat_uniform) (auto simp: length_little_endian)
  finally show ?thesis
    using assms by (simp add: little_endian_nth)
qed

lemma length_table_bytes:
  "length v \<le> m \<Longrightarrow>
     length (concat (map (little_endian c) v) @ replicate (c * (m - length v)) (0::c_ubyte)) = c * m"
proof -
  assume le: "length v \<le> m"
  have "length (concat (map (little_endian c) v)) = c * length v"
    by (induction v) (simp_all add: length_little_endian)
  moreover have "c * length v + c * (m - length v) = c * (length v + (m - length v))"
    by (simp only: add_mult_distrib2)
  ultimately show ?thesis
    using le by simp
qed

lemma table_methods:
  assumes "to_ubyte (length qv) v = Inr b"
  shows "lda lib self qi qv v w
           = (fst (call lib (Lib_LDA (sid self) (length qi) (uint_byref qi)
                               (length qv) (uint_byref qv) b) w), Inr ())"
    and "adc lib self s qi qv v w
           = (fst (call lib (Lib_ADC (sid self) s (length qi) (uint_byref qi)
                               (length qv) (uint_byref qv) b) w), Inr ())"
    and "sbc lib self s qi qv v w
           = (fst (call lib (Lib_SBC (sid self) s (length qi) (uint_byref qi)
                               (length qv) (uint_byref qv) b) w), Inr ())"
    and "hash lib self qv v w
           = (fst (call lib (Lib_Hash (sid self) (length qv) (uint_byref qv) b) w), Inr ())"
  using assms by (simp_all add: lda_def adc_def sbc_def hash_def)

text \<open>
  Where the table has at most \<open>2^nv\<close> entries, the buffer of \<open>_to_ubyte\<close> has
  \<open>c * 2^nv\<close> bytes with \<open>c = floor((nv - 1) / 8) + 1\<close> and holds the entries one after
  the other, each in \<open>c\<close> bytes, least significant byte first (byte \<open>i\<close> of entry \<open>k\<close>
  is at index \<open>c * k + i\<close> and holds the bits \<open>8 i\<close> to \<open>8 i + 7\<close> of the entry),
  followed by zeros; \<open>lda\<close>, \<open>adc\<close>, \<open>sbc\<close> and \<open>hash\<close> pass this buffer to the native
  call.
\<close>

lemma to_ubyte_layout:
  assumes "1 \<le> nv" and "length v \<le> 2 ^ nv"
  shows "\<exists>b. to_ubyte nv v = Inr b
           \<and> to_ubyte_width nv = (nv - 1) div 8 + 1
           \<and> length b = to_ubyte_width nv * 2 ^ nv
           \<and> b = concat (map (little_endian (to_ubyte_width nv)) v)
                   @ replicate (to_ubyte_width nv * (2 ^ nv - length v)) 0
           \<and> (\<forall>k < length v. \<forall>i < to_ubyte_width nv.
                 b ! (to_ubyte_width nv * k + i) = word_of_int (v ! k div 2 ^ (8 * i)))
           \<and> (length qv = nv \<longrightarrow>
                 lda lib self qi qv v w
                   = (fst (call lib (Lib_LDA (sid self) (length qi) (uint_byref qi)
                                       nv (uint_byref qv) b) w), Inr ())
                 \<and> adc lib self s qi qv v w
                   = (fst (call lib (Lib_ADC (sid self) s (length qi) (uint_byref qi)
                                       nv (uint_byref qv) b) w), Inr ())
                 \<and> sbc lib self s qi qv v w
                   = (fst (call lib (Lib_SBC (sid self) s (length qi) (uint_byref qi)
                                       nv (uint_byref qv) b) w), Inr ())
                 \<and> hash lib self qv v w
                   = (fst (call lib (Lib_Hash (sid self) nv (uint_byref qv) b) w), Inr ()))"
proof -
  let ?c = "to_ubyte_width nv"
  let ?b = "concat (map (little_endian ?c) v) @ replicate (?c * (2 ^ nv - length v)) 0"
  have run: "to_ubyte nv v = Inr ?b"
    by (rule to_ubyte_fits [OF assms(2)])
  have width: "?c = (nv - 1) div 8 + 1"
    by (rule to_ubyte_width_pos [OF assms(1)])
  have len: "length ?b = ?c * 2 ^ nv"
    by (rule length_table_bytes [OF assms(2)])
  have bytes: "\<forall>k < length v. \<forall>i < ?c. ?b ! (?c * k + i) = word_of_int (v ! k div 2 ^ (8 * i))"
    by (intro allI impI table_bytes_nth)
  have methods: "length qv = nv \<longrightarrow>
       lda lib self qi qv v w
         = (fst (call lib (Lib_LDA (sid self) (length qi) (uint_byref qi) nv (uint_byref qv) ?b) w),
            Inr ())
       \<and> adc lib self s qi qv v w
         = (fst (call lib (Lib_ADC (sid self) s (length qi) (uint_byref qi) nv (uint_byref qv) ?b) w),
            Inr ())
       \<and> sbc lib self s qi qv v w
         = (fst (call lib (Lib_SBC (sid self) s (length qi) (uint_byref qi) nv (uint_byref qv) ?b) w),
            Inr ())
       \<and> hash lib self qv v w
         = (fst (call lib (Lib_Hash (sid self) nv (uint_byref qv) ?b) w), Inr ())"
  proof
    assume "length qv = nv"
    with run have tb: "to_ubyte (length qv) v = Inr ?b" by simp
    from \<open>length qv = nv\<close> show "lda lib self qi qv v w
         = (fst (call lib (Lib_LDA (sid self) (length qi) (uint_byref qi) nv (uint_byref qv) ?b) w),
            Inr ())
       \<and> adc lib self s qi qv v w
         = (fst (call lib (Lib_ADC (sid self) s (length qi) (uint_byref qi) nv (uint_byref qv) ?b) w),
            Inr ())
       \<and> sbc lib self s qi qv v w
         = (fst (call lib (Lib_SBC (sid self) s (length qi) (uint_byref qi) nv (uint_byref qv) ?b) w),
            Inr ())
       \<and> hash lib self qv v w
         = (fst (call lib (Lib_Hash (sid self) nv (uint_byref qv) ?b) w), Inr ())"
      by (simp add: table_methods [OF tb])
  qed
  from run width len bytes methods show ?thesis
    by blast
qed

lemma to_ubyte_layout_example:
  "(1::nat) \<le> 9 \<and> length [258, 3 :: int] \<le> 2 ^ 9
   \<and> to_ubyte 9 [258, 3] = Inr ([2, 1, 3, 0] @ replicate 1020 0)
   \<and> hash counter_lib \<lparr>sid = Some 0\<rparr> [0, 1, 2, 3, 4, 5, 6, 7, 8] [258, 3] world0
       = (\<lparr>trace = [Lib_Hash (Some 0) 9 [0, 1, 2, 3, 4, 5, 6, 7, 8]
                      ([2, 1, 3, 0] @ replicate 1020 0)], nst = 0\<rparr>, Inr ())"
proof -
  have b: "concat (map (little_endian (to_ubyte_width 9)) [258, 3])
             @ replicate (to_ubyte_width 9 * (2 ^ 9 - length [258, 3 :: int])) 0
           = [2, 1, 3, 0] @ replicate 1020 (0 :: c_ubyte)"
    by (simp add: to_ubyte_width_def little_endian_def upt_rec)
  have "(1::nat) \<le> 9" and "length [258, 3 :: int] \<le> 2 ^ 9"
    by simp_all
  from to_ubyte_layout [OF this, of "[0, 1, 2, 3, 4, 5, 6, 7, 8]" counter_lib
      "\<lparr>sid = Some 0\<rparr>" "[0, 1, 2, 3, 4, 5, 6, 7, 8]" world0 0]
  have "to_ubyte 9 [258, 3] = Inr ([2, 1, 3, 0] @ replicate 1020 0)
      \<and> hash counter_lib \<lparr>sid = Some 0\<rparr> [0, 1, 2, 3, 4, 5, 6, 7, 8] [258, 3] world0
          = (fst (call counter_lib (Lib_Hash (Some 0) 9 (uint_byref [0, 1, 2, 3, 4, 5, 6, 7, 8])
                    ([2, 1, 3, 0] @ replicate 1020 0)) world0), Inr ())"
    unfolding b by auto
  then show ?thesis
    by (simp add: call_def world0_def uint_byref_def)
qed

text \<open>A table that does not fit the buffer: the first store beyond the end raises.\<close>

lemma write_entry_overflow:
  "n \<le> length b \<Longrightarrow> length b < n + k \<Longrightarrow> write_entry k u (b, n) = Inl IndexError"
proof (induction k arbitrary: u b n)
  case 0
  then show ?case by simp
next
  case (Suc k)
  show ?case
  proof (cases "n < length b")
    case True
    let ?b = "b[n := word_of_int (u AND 255)]"
    from True have "Suc n \<le> length ?b" by simp
    moreover from Suc.prems have "length ?b < Suc n + k" by simp
    ultimately have "write_entry k (drop_bit 8 u) (?b, Suc n) = Inl IndexError"
      by (rule Suc.IH)
    with True show ?thesis by simp
  next
    case False
    then show ?thesis by simp
  qed
qed

lemma write_table_overflow:
  "n \<le> length b \<Longrightarrow> length b < n + c * length v \<Longrightarrow> write_table c v (b, n) = Inl IndexError"
proof (induction v arbitrary: b n)
  case Nil
  then show ?case by simp
next
  case (Cons u v)
  show ?case
  proof (cases "n + c \<le> length b")
    case True
    let ?b = "take n b @ little_endian c u @ drop (n + c) b"
    have len: "length ?b = length b"
      using True by (simp add: length_little_endian)
    have step: "write_entry c u (b, n) = Inr (?b, n + c)"
      using True by (rule write_entry_fits)
    have "n + c \<le> length ?b"
      using True len by simp
    moreover have "length ?b < (n + c) + c * length v"
      using Cons.prems(2) len by (simp add: algebra_simps)
    ultimately have "write_table c v (?b, n + c) = Inl IndexError"
      by (rule Cons.IH)
    with step show ?thesis by simp
  next
    case False
    then have "length b < n + c" by simp
    with Cons.prems(1) have "write_entry c u (b, n) = Inl IndexError"
      by (rule write_entry_overflow)
    then show ?thesis by simp
  qed
qed

lemma to_ubyte_overflow:
  assumes "1 \<le> nv" and "2 ^ nv < length v"
  shows "to_ubyte nv v = Inl IndexError"
proof -
  let ?c = "to_ubyte_width nv"
  let ?b = "replicate (?c * 2 ^ nv) (0 :: c_ubyte)"
  have "0 < ?c"
    using to_ubyte_width_pos [OF assms(1)] by simp
  with assms(2) have "?c * 2 ^ nv < ?c * length v"
    by simp
  then have "length ?b < 0 + ?c * length v"
    by simp
  moreover have "0 \<le> length ?b"
    by simp
  ultimately have "write_table ?c v (?b, 0) = Inl IndexError"
    by (rule write_table_overflow [rotated])
  then show ?thesis
    by (simp add: to_ubyte_def Let_def)
qed

text \<open>
  Claim C10 says that \<open>_to_ubyte\<close> serializes each entry of the table of every
  lookup-table call. The table of \<open>lda\<close>, \<open>adc\<close> and \<open>sbc\<close> has one entry for each
  value of the index register \<open>qi\<close>, that is \<open>2^len(qi)\<close> entries, but lines 353, 356
  and 359 pass \<open>len(qv)\<close>, the width of the value register, and \<open>_to_ubyte\<close> makes a
  buffer of \<open>c * 2^len(qv)\<close> bytes. With more index qubits than value qubits the full
  table does not fit: the store beyond the end of the buffer raises \<open>IndexError\<close>, the
  entries from there on are not serialized, and the native function is not called.
\<close>

theorem lda_table_overflow:
  assumes "1 \<le> length qv" and "length qv < length qi" and "length t = 2 ^ length qi"
  shows "to_ubyte (length qv) t = Inl IndexError
         \<and> lda lib self qi qv t w = (w, Inl IndexError)
         \<and> adc lib self s qi qv t w = (w, Inl IndexError)
         \<and> sbc lib self s qi qv t w = (w, Inl IndexError)"
proof -
  have "(2::nat) ^ length qv < 2 ^ length qi"
    using assms(2) by simp
  with assms(3) have "2 ^ length qv < length t"
    by simp
  with assms(1) have "to_ubyte (length qv) t = Inl IndexError"
    by (rule to_ubyte_overflow)
  then show ?thesis
    by (simp add: lda_def adc_def sbc_def)
qed

theorem lda_table_overflow_witness:
  "(1::nat) \<le> length [2::int] \<and> length [2::int] < length [0, 1 :: int]
   \<and> length [0, 1, 1, 0 :: int] = 2 ^ length [0, 1 :: int]
   \<and> to_ubyte 1 [0, 1, 1, 0] = Inl IndexError
   \<and> lda counter_lib \<lparr>sid = Some 0\<rparr> [0, 1] [2] [0, 1, 1, 0] world0 = (world0, Inl IndexError)"
  using lda_table_overflow [of "[2]" "[0, 1]" "[0, 1, 1, 0]" counter_lib "\<lparr>sid = Some 0\<rparr>" world0 0]
  by simp

subsection \<open>The binding on the simulation core of the specification\<close>

lemma lookup_live:
  "map_of (regs n) i = Some (st, rg) \<Longrightarrow> lookup n (Some i) = Some (i, st, rg)"
  by (simp add: lookup_def)

text \<open>
  Claim C7: on a live register and for a valid qubit index \<open>q\<close>, \<open>prob(q)\<close> returns
  the probability that \<open>q\<close> measures 1 and changes nothing but the log of calls: the
  native state is the same, so every later native call returns the same result and
  leads to the same native state as if \<open>prob\<close> had not been called.
\<close>

theorem prob_pure_read:
  assumes "sid self = Some i" and "map_of (regs (nst w)) i = Some (st, rg)"
    and "eng_owns eng st q"
  shows "prob (qrack_lib eng) self q w
           = (w\<lparr>trace := trace w @ [Lib_Prob (Some i) q]\<rparr>, RDouble (eng_prob eng st q))
         \<and> nst (fst (prob (qrack_lib eng) self q w)) = nst w
         \<and> snd (call (qrack_lib eng) c (fst (prob (qrack_lib eng) self q w)))
             = snd (call (qrack_lib eng) c w)
         \<and> nst (fst (call (qrack_lib eng) c (fst (prob (qrack_lib eng) self q w))))
             = nst (fst (call (qrack_lib eng) c w))"
proof -
  have "prob (qrack_lib eng) self q w
           = (w\<lparr>trace := trace w @ [Lib_Prob (Some i) q]\<rparr>, RDouble (eng_prob eng st q))"
    using assms by (simp add: prob_def call_def lookup_live)
  then show ?thesis
    by (simp add: call_def split: prod.splits)
qed

theorem prob_pure_read_witness:
  "map_of (regs (nst toy_world)) 0 = Some ([(0, True), (1, False), (2, True)], 0)
   \<and> eng_owns toy_engine [(0, True), (1, False), (2, True)] 2
   \<and> prob (qrack_lib toy_engine) \<lparr>sid = Some 0\<rparr> 2 toy_world
      = (toy_world\<lparr>trace := [Lib_Prob (Some 0) 2]\<rparr>, RDouble 1)"
  using prob_pure_read [of "\<lparr>sid = Some 0\<rparr>" 0 toy_world "[(0, True), (1, False), (2, True)]" 0
      toy_engine 2 "Lib_Prob (Some 0) 2"]
  by (simp add: toy_world_def toy_engine_def)

lemma measure_shots_length: "length (snd (measure_shots lib self q s w)) = nat s"
  by (simp add: measure_shots_def Let_def split: prod.splits)

lemma qstates_update_same:
  "map_of rs i = Some (st, rg) \<Longrightarrow>
     map_option fst \<circ> map_of (AList.update i (st, rg') rs) = map_option fst \<circ> map_of rs"
  by (auto simp: update_conv' fun_eq_iff)

text \<open>
  Claim C5: for a shot count \<open>s \<ge> 0\<close>, \<open>measure_shots(q, s)\<close> returns a list of
  exactly \<open>s\<close> outcomes (with any native library); on a live register and a valid
  qubit subset the outcomes are the \<open>s\<close> shots that the core draws from the state the
  register has at the call, and the quantum state of every register is the same after
  the call as before it.
\<close>

theorem measure_shots_samples:
  assumes "sid self = Some i" and "map_of (regs (nst w)) i = Some (st, rg)"
    and "0 \<le> s" and "list_all (\<lambda>x. eng_owns eng st (uint x)) (uint_byref q)"
  shows "int (length (snd (measure_shots lib' self q s w'))) = s
         \<and> snd (measure_shots (qrack_lib eng) self q s w)
             = map (\<lambda>k. uint (eng_shot eng st (uint_byref q) rg k)) [0..<nat s]
         \<and> qstates (nst (fst (measure_shots (qrack_lib eng) self q s w))) = qstates (nst w)
         \<and> failed (nst (fst (measure_shots (qrack_lib eng) self q s w))) = failed (nst w)"
proof -
  let ?m = "uint_byref (replicate (nat s) 0)"
  let ?out = "map (eng_shot eng st (uint_byref q) rg) [0..<nat s]"
  let ?c = "Lib_MeasureShots (Some i) (length q) (uint_byref q) s ?m"
  have lib: "qrack_lib eng ?c (nst w)
      = (RBuf ?out, (nst w)\<lparr>regs := AList.update i (st, eng_advance eng rg (nat s)) (regs (nst w))\<rparr>)"
    using assms(2,4) by (simp add: lookup_live)
  have c: "call (qrack_lib eng) ?c w
      = (\<lparr>trace = trace w @ [?c],
          nst = (nst w)\<lparr>regs := AList.update i (st, eng_advance eng rg (nat s)) (regs (nst w))\<rparr>\<rparr>,
         RBuf ?out)"
    by (simp only: call_def lib prod.case)
  have wr: "written ?m (RBuf ?out) = ?out"
    by (simp add: uint_byref_def)
  have run: "measure_shots (qrack_lib eng) self q s w
      = (\<lparr>trace = trace w @ [?c],
          nst = (nst w)\<lparr>regs := AList.update i (st, eng_advance eng rg (nat s)) (regs (nst w))\<rparr>\<rparr>,
         map (\<lambda>k. uint (?out ! k)) [0..<nat s])"
    by (simp only: measure_shots_def Let_def assms(1) c wr prod.case)
  have "map (\<lambda>k. uint (?out ! k)) [0..<nat s]
      = map (\<lambda>k. uint (eng_shot eng st (uint_byref q) rg k)) [0..<nat s]"
    by simp
  moreover have "int (length (snd (measure_shots lib' self q s w'))) = s"
    using assms(3) by (simp add: measure_shots_length)
  ultimately show ?thesis
    using run assms(2) by (simp add: qstates_def qstates_update_same)
qed

theorem measure_shots_samples_witness:
  "map_of (regs (nst toy_world)) 0 = Some ([(0, True), (1, False), (2, True)], 0)
   \<and> list_all (\<lambda>x. eng_owns toy_engine [(0, True), (1, False), (2, True)] (uint x))
        (uint_byref [0, 1, 2])
   \<and> (0::int) \<le> 3
   \<and> measure_shots (qrack_lib toy_engine) \<lparr>sid = Some 0\<rparr> [0, 1, 2] 3 toy_world
      = (\<lparr>trace = [Lib_MeasureShots (Some 0) 3 [0, 1, 2] 3 [0, 0, 0]],
          nst = \<lparr>regs = [(0, [(0, True), (1, False), (2, True)], 3), (1, [(0, False)], 0)],
                 failed = False\<rparr>\<rparr>,
         [5, 5, 5])"
  using measure_shots_samples [of "\<lparr>sid = Some 0\<rparr>" 0 toy_world
      "[(0, True), (1, False), (2, True)]" 0 3 toy_engine "[0, 1, 2]"
      "qrack_lib toy_engine" toy_world]
  by (simp add: toy_world_def toy_engine_def measure_shots_def uint_byref_def call_def
      lookup_def toy_outcome_def numeral_3_eq_3 upt_rec)

lemma create_fresh:
  assumes "eng_alloc eng (map fst (regs n)) \<notin> set (map fst (regs n))"
  shows "qrack_lib eng (Lib_destroy (as_sid (fst (create eng st n)))) (snd (create eng st n))
           = (RNone, n)"
proof -
  let ?j = "eng_alloc eng (map fst (regs n))"
  have "map_of (AList.update ?j (st, eng_seed eng ?j) (regs n)) ?j = Some (st, eng_seed eng ?j)"
    by (simp add: update_conv')
  moreover have "AList.delete ?j (AList.update ?j (st, eng_seed eng ?j) (regs n)) = regs n"
    using assms by (simp add: delete_update_same)
  ultimately show ?thesis
    by (simp add: create_def Let_def lookup_def)
qed

text \<open>
  Claim C6: on a live register \<open>r\<close> and a qubit subset \<open>q\<close> that is exactly unentangled
  from the remainder, \<open>decompose(q)\<close> returns a new object whose handle is new in the
  registry and holds the state of the subset; the handle of \<open>r\<close> is the same (the
  method does not assign \<open>self.sid\<close>) and now holds the remainder; every other handle
  denotes the register it denoted before. The only \<open>destroy\<close> the method issues is on
  the temporary register it has just created.
\<close>

theorem decompose_new_register:
  assumes "sid self = Some i" and "map_of (regs (nst w)) i = Some (st, rg)"
    and "eng_split eng st (uint_byref q) = Some (sub, rest)"
    and "eng_alloc eng (map fst (regs (nst w))) \<notin> set (map fst (regs (nst w)))"
  shows "\<exists>w'. decompose (qrack_lib eng) self q w
                 = (w', Inr \<lparr>sid = Some (eng_alloc eng (map fst (regs (nst w))))\<rparr>)
           \<and> qstates (nst w')
               = (qstates (nst w))(i \<mapsto> rest, eng_alloc eng (map fst (regs (nst w))) \<mapsto> sub)
           \<and> failed (nst w') = failed (nst w)
           \<and> trace w' = trace w @
               [Lib_init_count_type 0 True True True False True True True,
                Lib_destroy (Some (eng_alloc eng (map fst (regs (nst w))))),
                Lib_Decompose (Some i) (length q) (uint_byref q)]"
proof -
  let ?n = "nst w"
  let ?j = "eng_alloc eng (map fst (regs ?n))"
  let ?ini = "Lib_init_count_type 0 True True True False True True True"
  let ?fresh = "eng_fresh eng 0 [True, True, True, False, True, True, True]"
  let ?dec = "Lib_Decompose (Some i) (length q) (uint_byref q)"
  have ini: "qrack_lib eng ?ini ?n = create eng ?fresh ?n"
    by simp
  let ?n1 = "?n\<lparr>regs := AList.update ?j (?fresh, eng_seed eng ?j) (regs ?n)\<rparr>"
  have cr: "create eng ?fresh ?n = (RInt ?j, ?n1)"
    by (simp add: create_def Let_def)
  have des: "qrack_lib eng (Lib_destroy (Some ?j)) ?n1 = (RNone, ?n)"
    using create_fresh [OF assms(4), of ?fresh] by (simp only: cr fst_conv snd_conv as_sid.simps)
  have i_in: "i \<in> set (map fst (regs ?n))"
    using assms(2) by (metis map_of_eq_None_iff option.distinct(1) set_map)
  have keys: "map fst (AList.update i (rest, rg) (regs ?n)) = map fst (regs ?n)"
    using i_in by (simp add: update_keys)
  have dec: "qrack_lib eng ?dec ?n
      = (RInt ?j, ?n\<lparr>regs := AList.update ?j (sub, eng_seed eng ?j)
                                (AList.update i (rest, rg) (regs ?n))\<rparr>)"
    using assms(2,3) keys by (simp add: lookup_live create_def Let_def)
  let ?w' = "\<lparr>trace = trace w @ [?ini, Lib_destroy (Some ?j), ?dec],
              nst = ?n\<lparr>regs := AList.update ?j (sub, eng_seed eng ?j)
                                (AList.update i (rest, rg) (regs ?n))\<rparr>\<rparr>"
  have init: "qs_init (qrack_lib eng) (-1) (-1) default_options None w
      = (\<lparr>trace = trace w @ [?ini], nst = ?n1\<rparr>, \<lparr>sid = Some ?j\<rparr>, Inr ())"
    by (simp add: qs_init_def call_int_def convertible_def call_def default_options_def
        cr del: qrack_lib.simps add: ini)
  have run: "decompose (qrack_lib eng) self q w = (?w', Inr \<lparr>sid = Some ?j\<rparr>)"
    by (simp add: decompose_def init call_def des dec assms(1) del: qrack_lib.simps)
  have qs: "qstates (nst ?w') = (qstates ?n)(i \<mapsto> rest, ?j \<mapsto> sub)"
    by (auto simp: qstates_def update_conv' fun_eq_iff)
  show ?thesis
    using run qs by simp
qed

theorem decompose_new_register_witness:
  "map_of (regs (nst toy_world)) 0 = Some ([(0, True), (1, False), (2, True)], 0)
   \<and> eng_split toy_engine [(0, True), (1, False), (2, True)] (uint_byref [1])
       = Some ([(1, False)], [(0, True), (2, True)])
   \<and> eng_alloc toy_engine (map fst (regs (nst toy_world))) \<notin> set (map fst (regs (nst toy_world)))
   \<and> decompose (qrack_lib toy_engine) \<lparr>sid = Some 0\<rparr> [1] toy_world
      = (\<lparr>trace = [Lib_init_count_type 0 True True True False True True True,
                   Lib_destroy (Some 2), Lib_Decompose (Some 0) 1 [1]],
          nst = \<lparr>regs = [(0, [(0, True), (2, True)], 0), (1, [(0, False)], 0), (2, [(1, False)], 0)],
                 failed = False\<rparr>\<rparr>,
         Inr \<lparr>sid = Some 2\<rparr>)"
  using decompose_new_register [of "\<lparr>sid = Some 0\<rparr>" 0 toy_world
      "[(0, True), (1, False), (2, True)]" 0 toy_engine "[1]" "[(1, False)]"
      "[(0, True), (2, True)]"]
  by (simp add: toy_world_def toy_engine_def decompose_def qs_init_def uint_byref_def call_def
      lookup_def create_def call_int_def convertible_def default_options_def)

end
